theory Spec2Isabelle
  imports Complex_Main
begin

section \<open>Numbers and errors\<close>

text \<open>
  The analysis engine of \<^verbatim>\<open>app.py\<close> computes with Python floats. Finite values are
  modelled as \<^typ>\<open>real\<close> (exact arithmetic: rounding and overflow are not modelled). A field
  that may hold a number, \<^verbatim>\<open>None\<close> or the string \<^verbatim>\<open>'N/A'\<close> is a \<^typ>\<open>real option\<close>,
  where \<^term>\<open>None\<close> stands for every value that fails \<^verbatim>\<open>isinstance(x, (int, float))\<close>.
  Division of Python floats by zero raises; it is a value of \<open>py_error\<close>, as are the
  other exceptions the modelled code can raise. A computation that may raise returns
  \<open>py_error + 'a\<close>, with \<open>Inl\<close> for the exception.
\<close>

datatype py_error = ZeroDivisionError | IndexError | ValueError

definition then_do :: "'e + 'a \<Rightarrow> ('a \<Rightarrow> 'e + 'b) \<Rightarrow> 'e + 'b" where
  "then_do r f = (case r of Inl e \<Rightarrow> Inl e | Inr v \<Rightarrow> f v)"


section \<open>Technical indicators\<close>

subsection \<open>pandas and numpy floats\<close>

text \<open>
  The indicators compute on pandas series, whose arithmetic does not raise: division by
  zero gives an infinity or NaN. \<open>npfloat\<close> is a float64 value with finite values as
  reals; the sign of zero is not modelled (every zero is \<open>+0\<close>).
\<close>

datatype npfloat = Fin real | PosInf | NegInf | NaN

fun np_neg :: "npfloat \<Rightarrow> npfloat" where
  "np_neg (Fin x) = Fin (- x)"
| "np_neg PosInf = NegInf"
| "np_neg NegInf = PosInf"
| "np_neg NaN = NaN"

fun np_add :: "npfloat \<Rightarrow> npfloat \<Rightarrow> npfloat" where
  "np_add (Fin a) (Fin b) = Fin (a + b)"
| "np_add NaN _ = NaN"
| "np_add _ NaN = NaN"
| "np_add PosInf NegInf = NaN"
| "np_add NegInf PosInf = NaN"
| "np_add PosInf _ = PosInf"
| "np_add _ PosInf = PosInf"
| "np_add NegInf _ = NegInf"
| "np_add _ NegInf = NegInf"

definition np_sub :: "npfloat \<Rightarrow> npfloat \<Rightarrow> npfloat" where
  "np_sub a b = np_add a (np_neg b)"

text \<open>The infinity with the sign of \<open>s\<close>; NaN when \<open>s\<close> is zero.\<close>

definition signed_inf :: "real \<Rightarrow> npfloat" where
  "signed_inf s = (if 0 < s then PosInf else if s < 0 then NegInf else NaN)"

fun np_mul :: "npfloat \<Rightarrow> npfloat \<Rightarrow> npfloat" where
  "np_mul (Fin a) (Fin b) = Fin (a * b)"
| "np_mul NaN _ = NaN"
| "np_mul _ NaN = NaN"
| "np_mul (Fin a) PosInf = signed_inf a"
| "np_mul (Fin a) NegInf = signed_inf (- a)"
| "np_mul PosInf (Fin b) = signed_inf b"
| "np_mul NegInf (Fin b) = signed_inf (- b)"
| "np_mul PosInf PosInf = PosInf"
| "np_mul NegInf NegInf = PosInf"
| "np_mul PosInf NegInf = NegInf"
| "np_mul NegInf PosInf = NegInf"

fun np_div :: "npfloat \<Rightarrow> npfloat \<Rightarrow> npfloat" where
  "np_div (Fin a) (Fin b) = (if b \<noteq> 0 then Fin (a / b) else signed_inf a)"
| "np_div NaN _ = NaN"
| "np_div _ NaN = NaN"
| "np_div (Fin a) _ = Fin 0"
| "np_div PosInf (Fin b) = (if 0 \<le> b then PosInf else NegInf)"
| "np_div NegInf (Fin b) = (if 0 \<le> b then NegInf else PosInf)"
| "np_div _ _ = NaN"

fun np_abs :: "npfloat \<Rightarrow> npfloat" where
  "np_abs (Fin x) = Fin \<bar>x\<bar>"
| "np_abs NaN = NaN"
| "np_abs _ = PosInf"

fun np_sign :: "npfloat \<Rightarrow> npfloat" where
  "np_sign (Fin x) = Fin (sgn x)"
| "np_sign PosInf = Fin 1"
| "np_sign NegInf = Fin (- 1)"
| "np_sign NaN = NaN"

text \<open>The comparison \<open><\<close> of floats: false whenever an operand is NaN.\<close>

fun np_less :: "npfloat \<Rightarrow> npfloat \<Rightarrow> bool" where
  "np_less (Fin a) (Fin b) = (a < b)"
| "np_less NaN _ = False"
| "np_less _ NaN = False"
| "np_less NegInf NegInf = False"
| "np_less NegInf _ = True"
| "np_less _ NegInf = False"
| "np_less PosInf _ = False"
| "np_less _ PosInf = True"

text \<open>The comparison \<open>!=\<close> of floats: true whenever an operand is NaN.\<close>

definition np_ne :: "npfloat \<Rightarrow> npfloat \<Rightarrow> bool" where
  "np_ne a b = (a = NaN \<or> b = NaN \<or> a \<noteq> b)"

definition isna :: "npfloat \<Rightarrow> bool" where
  "isna x = (x = NaN)"

text \<open>\<^verbatim>\<open>float(x) if not pd.isna(x) else None\<close>\<close>

definition float_or_none :: "npfloat \<Rightarrow> npfloat option" where
  "float_or_none x = (if \<not> isna x then Some x else None)"

subsection \<open>Series\<close>

text \<open>
  A series is the list of its values, oldest first, indexed by position. The input series
  hold finite values. A binary operation on two series is aligned on the index: where only
  one of the two has a value, the other operand is NaN.
\<close>

definition series :: "real list \<Rightarrow> npfloat list" where
  "series xs = map Fin xs"

fun align :: "(npfloat \<Rightarrow> npfloat \<Rightarrow> npfloat) \<Rightarrow> npfloat list \<Rightarrow> npfloat list \<Rightarrow> npfloat list" where
  "align f [] [] = []"
| "align f (x # xs) [] = f x NaN # align f xs []"
| "align f [] (y # ys) = f NaN y # align f [] ys"
| "align f (x # xs) (y # ys) = f x y # align f xs ys"

text \<open>\<^verbatim>\<open>s.shift(k)\<close> and \<^verbatim>\<open>s.diff(k)\<close>\<close>

definition series_shift :: "nat \<Rightarrow> npfloat list \<Rightarrow> npfloat list" where
  "series_shift k xs = replicate (min k (length xs)) NaN @ take (length xs - k) xs"

definition series_diff :: "nat \<Rightarrow> npfloat list \<Rightarrow> npfloat list" where
  "series_diff k xs = align np_sub xs (series_shift k xs)"

text \<open>\<^verbatim>\<open>s.iloc[-1]\<close> raises on an empty series.\<close>

definition iloc_last :: "'a list \<Rightarrow> py_error + 'a" where
  "iloc_last xs = (if xs = [] then Inl IndexError else Inr (last xs))"

text \<open>
  \<^verbatim>\<open>s.rolling(window=w).agg()\<close>: the value at position \<open>i\<close> is the aggregate of the
  \<open>w\<close> values ending at \<open>i\<close>, and NaN when fewer than \<open>w\<close> values are there or one
  of them is NaN. pandas replaces infinite values by NaN before it aggregates, so a
  window gives a number only when all its values are finite. Each aggregate is modelled
  by its definition on the window (pandas computes it incrementally, which differs in
  rounding only).
\<close>

fun finite_value :: "npfloat \<Rightarrow> bool" where
  "finite_value (Fin x) = True"
| "finite_value v = False"

definition window_at :: "nat \<Rightarrow> nat \<Rightarrow> 'a list \<Rightarrow> 'a list" where
  "window_at w i xs = take w (drop (i + 1 - w) xs)"

definition rolling :: "nat \<Rightarrow> (npfloat list \<Rightarrow> npfloat) \<Rightarrow> npfloat list \<Rightarrow> npfloat list" where
  "rolling w agg xs =
     map (\<lambda>i. if w = 0 \<or> i + 1 < w then NaN
              else let win = window_at w i xs
                   in if list_all finite_value win then agg win else NaN)
         [0..<length xs]"

definition np_sum :: "npfloat list \<Rightarrow> npfloat" where
  "np_sum ws = foldl np_add (Fin 0) ws"

definition np_mean :: "npfloat list \<Rightarrow> npfloat" where
  "np_mean ws = np_div (np_sum ws) (Fin (real (length ws)))"

fun np_min_list :: "npfloat list \<Rightarrow> npfloat" where
  "np_min_list [] = NaN"
| "np_min_list (x # xs) = fold (\<lambda>y m. if np_less y m then y else m) xs x"

fun np_max_list :: "npfloat list \<Rightarrow> npfloat" where
  "np_max_list [] = NaN"
| "np_max_list (x # xs) = fold (\<lambda>y m. if np_less m y then y else m) xs x"

text \<open>The sample standard deviation (\<^verbatim>\<open>ddof=1\<close>), the default of \<^verbatim>\<open>rolling().std()\<close>.\<close>

definition np_std :: "npfloat list \<Rightarrow> npfloat" where
  "np_std ws =
     (if length ws < 2 then NaN
      else let m = np_mean ws;
               sq = map (\<lambda>x. np_mul (np_sub x m) (np_sub x m)) ws
           in case np_div (np_sum sq) (Fin (real (length ws - 1))) of
                Fin v \<Rightarrow> Fin (sqrt v)
              | PosInf \<Rightarrow> PosInf
              | _ \<Rightarrow> NaN)"

text \<open>
  \<^verbatim>\<open>s.ewm(span=span, adjust=False).mean()\<close>: the first value seeds the average, then
  \<open>y\<^sub>t = (1 - \<alpha>) y\<^sub>t\<^sub>-\<^sub>1 + \<alpha> x\<^sub>t\<close> with \<open>\<alpha> = 2 / (span + 1)\<close>. pandas rejects a span below 1.
\<close>

fun ewm_from :: "real \<Rightarrow> real \<Rightarrow> real list \<Rightarrow> real list" where
  "ewm_from \<alpha> y [] = []"
| "ewm_from \<alpha> y (x # xs) = (let y' = (1 - \<alpha>) * y + \<alpha> * x in y' # ewm_from \<alpha> y' xs)"

definition ewm_alpha :: "real \<Rightarrow> real list \<Rightarrow> real list" where
  "ewm_alpha \<alpha> xs = (case xs of [] \<Rightarrow> [] | x # rest \<Rightarrow> x # ewm_from \<alpha> x rest)"

definition ewm_mean :: "nat \<Rightarrow> real list \<Rightarrow> py_error + real list" where
  "ewm_mean span' xs =
     (if span' < 1 then Inl ValueError else Inr (ewm_alpha (2 / (real span' + 1)) xs))"

subsection \<open>The indicators of \<^verbatim>\<open>TechnicalAnalysis\<close>\<close>

definition calculate_rsi :: "real list \<Rightarrow> nat \<Rightarrow> py_error + npfloat option" where
  "calculate_rsi prices period =
     (if length prices < period + 1 then Inr None
      else
        let delta = series_diff 1 (series prices);
            gain = rolling period np_mean (map (\<lambda>d. if np_less (Fin 0) d then d else Fin 0) delta);
            loss = rolling period np_mean
                     (map (\<lambda>d. np_neg (if np_less d (Fin 0) then d else Fin 0)) delta);
            rs = align np_div gain loss;
            rsi = map (\<lambda>r. np_sub (Fin 100) (np_div (Fin 100) (np_add (Fin 1) r))) rs
        in then_do (iloc_last rsi) (\<lambda>v. Inr (float_or_none v)))"

text \<open>The dictionary with the keys \<^verbatim>\<open>macd\<close>, \<^verbatim>\<open>signal\<close> and \<^verbatim>\<open>histogram\<close>.\<close>

record macd_result =
  md_macd :: "npfloat option"
  md_signal :: "npfloat option"
  md_histogram :: "npfloat option"

definition calculate_macd :: "real list \<Rightarrow> nat \<Rightarrow> nat \<Rightarrow> nat \<Rightarrow> py_error + macd_result option" where
  "calculate_macd prices fast slow signal =
     (if length prices < slow then Inr None
      else
        then_do (ewm_mean fast prices) (\<lambda>ema_fast.
        then_do (ewm_mean slow prices) (\<lambda>ema_slow.
          let macd_line = map2 (-) ema_fast ema_slow in
          then_do (ewm_mean signal macd_line) (\<lambda>signal_line.
            let histogram = map2 (-) macd_line signal_line in
            then_do (iloc_last macd_line) (\<lambda>m.
            then_do (iloc_last signal_line) (\<lambda>s.
            then_do (iloc_last histogram) (\<lambda>h.
              Inr (Some \<lparr> md_macd = float_or_none (Fin m),
                          md_signal = float_or_none (Fin s),
                          md_histogram = float_or_none (Fin h) \<rparr>))))))))"

text \<open>
  \<^verbatim>\<open>calculate_moving_averages\<close> returns a dictionary: the empty one below 200 points,
  else the five keys. Under the guard the series is not empty, so \<^verbatim>\<open>iloc[-1]\<close> is
  \<^const>\<open>last\<close>; the spans 12 and 26 are accepted by \<^verbatim>\<open>ewm\<close>.
\<close>

definition calculate_moving_averages :: "real list \<Rightarrow> (string \<rightharpoonup> npfloat option)" where
  "calculate_moving_averages prices =
     (if length prices < 200 then Map.empty
      else map_of
        [(''sma_20'', if length prices \<ge> 20
                      then Some (last (rolling 20 np_mean (series prices))) else None),
         (''sma_50'', if length prices \<ge> 50
                      then Some (last (rolling 50 np_mean (series prices))) else None),
         (''sma_200'', if length prices \<ge> 200
                       then Some (last (rolling 200 np_mean (series prices))) else None),
         (''ema_12'', if length prices \<ge> 12
                      then Some (Fin (last (ewm_alpha (2 / (12 + 1)) prices))) else None),
         (''ema_26'', if length prices \<ge> 26
                      then Some (Fin (last (ewm_alpha (2 / (26 + 1)) prices))) else None)])"

text \<open>The dictionary of \<^verbatim>\<open>calculate_bollinger_bands\<close>.\<close>

record bollinger_result =
  bb_upper :: npfloat
  bb_middle :: npfloat
  bb_lower :: npfloat
  bb_percent_b :: npfloat
  bb_bandwidth :: "npfloat option"

definition calculate_bollinger_bands ::
  "real list \<Rightarrow> nat \<Rightarrow> real \<Rightarrow> py_error + bollinger_result option" where
  "calculate_bollinger_bands prices period std_dev =
     (if length prices < period then Inr None
      else
        let sma = rolling period np_mean (series prices);
            std = rolling period np_std (series prices);
            upper_band = align np_add sma (map (\<lambda>s. np_mul s (Fin std_dev)) std);
            lower_band = align np_sub sma (map (\<lambda>s. np_mul s (Fin std_dev)) std)
        in
        then_do (iloc_last (series prices)) (\<lambda>current_price.
        then_do (iloc_last upper_band) (\<lambda>upper.
        then_do (iloc_last lower_band) (\<lambda>lower.
        then_do (iloc_last sma) (\<lambda>middle.
          let percent_b =
                (if np_ne upper lower
                 then np_mul (np_div (np_sub current_price lower) (np_sub upper lower)) (Fin 100)
                 else Fin 50)
          in Inr (Some \<lparr> bb_upper = upper, bb_middle = middle, bb_lower = lower,
                         bb_percent_b = percent_b,
                         bb_bandwidth =
                           (if np_less (Fin 0) middle
                            then Some (np_mul (np_div (np_sub upper lower) middle) (Fin 100))
                            else None) \<rparr>))))))"

text \<open>The dictionary of \<^verbatim>\<open>calculate_stochastic\<close>, keys \<^verbatim>\<open>k\<close> and \<^verbatim>\<open>d\<close>.\<close>

record stochastic_result =
  st_k :: "npfloat option"
  st_d :: "npfloat option"

definition calculate_stochastic ::
  "real list \<Rightarrow> real list \<Rightarrow> real list \<Rightarrow> nat \<Rightarrow> py_error + stochastic_result option" where
  "calculate_stochastic high low close period =
     (if length close < period then Inr None
      else
        let lowest_low = rolling period np_min_list (series low);
            highest_high = rolling period np_max_list (series high);
            k_percent = map (np_mul (Fin 100))
                          (align np_div (align np_sub (series close) lowest_low)
                                        (align np_sub highest_high lowest_low));
            d_percent = rolling 3 np_mean k_percent
        in
        then_do (iloc_last k_percent) (\<lambda>k.
        then_do (iloc_last d_percent) (\<lambda>d.
          Inr (Some \<lparr> st_k = float_or_none k, st_d = float_or_none d \<rparr>))))"

text \<open>
  \<^verbatim>\<open>pd.concat([tr1, tr2, tr3], axis=1).max(axis=1)\<close>: the largest value of each row,
  NaN values skipped; NaN when the row has no other value.
\<close>

definition row_max :: "npfloat list \<Rightarrow> npfloat" where
  "row_max vs = np_max_list (filter (\<lambda>v. \<not> isna v) vs)"

definition concat_max :: "npfloat list list \<Rightarrow> npfloat list" where
  "concat_max cols =
     map (\<lambda>i. row_max (map (\<lambda>c. if i < length c then c ! i else NaN) cols))
         [0..<fold max (map length cols) 0]"

definition calculate_atr ::
  "real list \<Rightarrow> real list \<Rightarrow> real list \<Rightarrow> nat \<Rightarrow> py_error + npfloat option" where
  "calculate_atr high low close period =
     (if length close < period + 1 then Inr None
      else
        let tr1 = align np_sub (series high) (series low);
            tr2 = map np_abs (align np_sub (series high) (series_shift 1 (series close)));
            tr3 = map np_abs (align np_sub (series low) (series_shift 1 (series close)));
            tr = concat_max [tr1, tr2, tr3];
            atr = rolling period np_mean tr
        in then_do (iloc_last atr) (\<lambda>v. Inr (float_or_none v)))"

text \<open>\<^verbatim>\<open>s.cumsum()\<close> on a series without NaN.\<close>

fun cumsum_from :: "npfloat \<Rightarrow> npfloat list \<Rightarrow> npfloat list" where
  "cumsum_from acc [] = []"
| "cumsum_from acc (x # xs) = np_add acc x # cumsum_from (np_add acc x) xs"

definition calculate_obv :: "real list \<Rightarrow> real list \<Rightarrow> py_error + npfloat option" where
  "calculate_obv close volume =
     (if length close < 2 then Inr None
      else
        let signed = align np_mul (map np_sign (series_diff 1 (series close))) (series volume);
            obv = cumsum_from (Fin 0) (map (\<lambda>v. if isna v then Fin 0 else v) signed)
        in then_do (iloc_last obv) (\<lambda>v. Inr (float_or_none v)))"

definition calculate_momentum :: "real list \<Rightarrow> nat \<Rightarrow> py_error + npfloat option" where
  "calculate_momentum prices period =
     (if length prices < period + 1 then Inr None
      else
        let momentum = series_diff period (series prices)
        in then_do (iloc_last momentum) (\<lambda>v. Inr (float_or_none v)))"

section \<open>Valuation, macro and sentiment\<close>

subsection \<open>The fundamentals record\<close>

text \<open>
  The \<^verbatim>\<open>info\<close> dictionary of the data provider, by key. A numeric field is \<^term>\<open>None\<close>
  when the key is absent or its value is not a number.
\<close>

record info =
  trailingPE :: "real option"
  forwardPE :: "real option"
  pegRatio :: "real option"
  priceToBook :: "real option"
  priceToSalesTrailing12Months :: "real option"
  profitMargins :: "real option"
  returnOnEquity :: "real option"
  debtToEquity :: "real option"
  currentRatio :: "real option"
  revenueGrowth :: "real option"
  earningsQuarterlyGrowth :: "real option"
  marketCap :: "real option"
  beta :: "real option"
  targetMeanPrice :: "real option"
  freeCashflow :: "real option"
  sharesOutstanding :: "real option"
  averageVolume :: "real option"
  volume :: "real option"
  heldPercentInstitutions :: "real option"
  recommendationKey :: "string option"

text \<open>The record with no field known.\<close>

definition no_info :: info where
  "no_info = \<lparr> trailingPE = None, forwardPE = None, pegRatio = None, priceToBook = None,
     priceToSalesTrailing12Months = None, profitMargins = None, returnOnEquity = None,
     debtToEquity = None, currentRatio = None, revenueGrowth = None,
     earningsQuarterlyGrowth = None, marketCap = None, beta = None, targetMeanPrice = None,
     freeCashflow = None, sharesOutstanding = None, averageVolume = None, volume = None,
     heldPercentInstitutions = None, recommendationKey = None \<rparr>"

subsection \<open>Relative valuation\<close>

text \<open>
  The dictionary \<^verbatim>\<open>relative_assessment\<close>. The three \<^verbatim>\<open>..._vs_market\<close> entries hold the
  percentage that the code formats into a string, \<^term>\<open>None\<close> for \<^verbatim>\<open>'N/A'\<close>.
\<close>

record relative_assessment =
  pe_vs_market :: "real option"
  pb_vs_market :: "real option"
  ps_vs_market :: "real option"
  overall_valuation :: string
  premium_discount :: real

text \<open>One of the three blocks of \<^verbatim>\<open>calculate_relative_valuation\<close>: the percentage of the
  market average when the ratio is a positive number.\<close>

definition vs_market :: "real option \<Rightarrow> real \<Rightarrow> real option" where
  "vs_market ratio market =
     (case ratio of
        None \<Rightarrow> None
      | Some r \<Rightarrow> if r > 0 then Some (r / market * 100) else None)"

definition add_premium :: "real option \<Rightarrow> real \<Rightarrow> real" where
  "add_premium vs acc = (case vs of None \<Rightarrow> acc | Some v \<Rightarrow> acc + (v - 100) / 3)"

definition calculate_relative_valuation :: "info \<Rightarrow> relative_assessment" where
  "calculate_relative_valuation i =
     (let market_pe = 22.5;
          pe = vs_market (trailingPE i) market_pe;
          market_pb = 3.5;
          pb = vs_market (priceToBook i) market_pb;
          market_ps = 2.5;
          ps = vs_market (priceToSalesTrailing12Months i) market_ps;
          avg_premium = add_premium ps (add_premium pb (add_premium pe 0))
      in \<lparr> pe_vs_market = pe, pb_vs_market = pb, ps_vs_market = ps,
           overall_valuation =
             (if avg_premium > 20 then ''EXPENSIVE''
              else if avg_premium > 10 then ''SLIGHTLY EXPENSIVE''
              else if avg_premium > -10 then ''FAIR''
              else if avg_premium > -20 then ''SLIGHTLY CHEAP''
              else ''CHEAP''),
           premium_discount = avg_premium \<rparr>)"

subsection \<open>Strings\<close>

text \<open>\<^verbatim>\<open>str.lower\<close> and \<^verbatim>\<open>str.upper\<close> on ASCII letters, and the substring test \<^verbatim>\<open>in\<close>.\<close>

definition lower_char :: "char \<Rightarrow> char" where
  "lower_char c =
     (case map_of (zip ''ABCDEFGHIJKLMNOPQRSTUVWXYZ'' ''abcdefghijklmnopqrstuvwxyz'') c of
        None \<Rightarrow> c | Some d \<Rightarrow> d)"

definition upper_char :: "char \<Rightarrow> char" where
  "upper_char c =
     (case map_of (zip ''abcdefghijklmnopqrstuvwxyz'' ''ABCDEFGHIJKLMNOPQRSTUVWXYZ'') c of
        None \<Rightarrow> c | Some d \<Rightarrow> d)"

definition lower :: "string \<Rightarrow> string" where
  "lower s = map lower_char s"

definition upper :: "string \<Rightarrow> string" where
  "upper s = map upper_char s"

fun starts_with :: "string \<Rightarrow> string \<Rightarrow> bool" where
  "starts_with [] hay = True"
| "starts_with (n # ns) [] = False"
| "starts_with (n # ns) (h # hs) = (n = h \<and> starts_with ns hs)"

fun py_in :: "string \<Rightarrow> string \<Rightarrow> bool" where
  "py_in needle [] = (needle = [])"
| "py_in needle (h # hs) = (starts_with needle (h # hs) \<or> py_in needle hs)"

subsection \<open>Macroeconomic classification\<close>

record macro_analysis =
  sector_outlook :: string
  economic_pressures :: "string list"
  market_conditions :: string
  interest_rate_sensitivity :: string
  inflation_impact :: string
  recession_resilience :: string

definition macro_default :: macro_analysis where
  "macro_default = \<lparr> sector_outlook = ''NEUTRAL'', economic_pressures = [],
     market_conditions = ''NEUTRAL'', interest_rate_sensitivity = ''MEDIUM'',
     inflation_impact = ''MEDIUM'', recession_resilience = ''MEDIUM'' \<rparr>"

text \<open>The \<^verbatim>\<open>if\<close>/\<^verbatim>\<open>elif\<close> chain on sector and industry: the first match applies.\<close>

definition sector_rules :: "string \<Rightarrow> string \<Rightarrow> macro_analysis \<Rightarrow> macro_analysis" where
  "sector_rules sector_lower industry_lower m =
     (if py_in ''technology'' sector_lower \<or> py_in ''software'' industry_lower
         \<or> py_in ''semiconductor'' industry_lower
      then m\<lparr> sector_outlook := ''POSITIVE'',
              economic_pressures := economic_pressures m
                @ [''Technology sector benefits from digital transformation trends''],
              interest_rate_sensitivity := ''HIGH'',
              recession_resilience := ''LOW-MEDIUM'' \<rparr>
      else if py_in ''financial'' sector_lower \<or> py_in ''bank'' industry_lower
      then m\<lparr> sector_outlook := ''NEUTRAL'',
              interest_rate_sensitivity := ''VERY HIGH'',
              economic_pressures := economic_pressures m
                @ [''Financial sector highly sensitive to interest rate changes''],
              recession_resilience := ''LOW'' \<rparr>
      else if py_in ''consumer'' sector_lower \<and> py_in ''discretionary'' sector_lower
      then m\<lparr> sector_outlook := ''CAUTIOUS'',
              economic_pressures := economic_pressures m
                @ [''Consumer discretionary sensitive to economic cycles''],
              recession_resilience := ''LOW'',
              inflation_impact := ''HIGH'' \<rparr>
      else if py_in ''consumer'' sector_lower \<and> py_in ''staples'' sector_lower
      then m\<lparr> sector_outlook := ''STABLE'',
              recession_resilience := ''HIGH'',
              economic_pressures := economic_pressures m
                @ [''Consumer staples provide defensive characteristics''],
              inflation_impact := ''MEDIUM'' \<rparr>
      else if py_in ''healthcare'' sector_lower \<or> py_in ''health'' sector_lower
      then m\<lparr> sector_outlook := ''POSITIVE'',
              recession_resilience := ''HIGH'',
              economic_pressures := economic_pressures m
                @ [''Healthcare sector shows defensive characteristics''],
              inflation_impact := ''LOW-MEDIUM'' \<rparr>
      else if py_in ''energy'' sector_lower \<or> py_in ''oil'' industry_lower
      then m\<lparr> sector_outlook := ''VOLATILE'',
              economic_pressures := economic_pressures m
                @ [''Energy sector subject to commodity price volatility''],
              recession_resilience := ''MEDIUM'',
              inflation_impact := ''HIGH'' \<rparr>
      else if py_in ''utilities'' sector_lower
      then m\<lparr> sector_outlook := ''STABLE'',
              recession_resilience := ''HIGH'',
              interest_rate_sensitivity := ''HIGH'',
              economic_pressures := economic_pressures m
                @ [''Utilities provide stable dividends but sensitive to rates''] \<rparr>
      else if py_in ''real estate'' sector_lower \<or> py_in ''reit'' industry_lower
      then m\<lparr> sector_outlook := ''CAUTIOUS'',
              interest_rate_sensitivity := ''VERY HIGH'',
              recession_resilience := ''LOW-MEDIUM'',
              economic_pressures := economic_pressures m
                @ [''Real estate highly sensitive to interest rates and economic cycles''] \<rparr>
      else m)"

text \<open>
  The beta rule reads \<^verbatim>\<open>ticker_obj.info.get('beta', 1.0)\<close>: an absent beta is 1.0 and
  changes nothing, as does one that is not a number.
\<close>

definition beta_rule :: "info \<Rightarrow> macro_analysis \<Rightarrow> macro_analysis" where
  "beta_rule ticker_info m =
     (case beta ticker_info of
        None \<Rightarrow> m
      | Some b \<Rightarrow>
          if b > 1.3
          then m\<lparr> market_conditions := ''HIGH VOLATILITY'',
                  economic_pressures := economic_pressures m
                    @ [''High beta indicates high market sensitivity''] \<rparr>
          else if b < 0.7
          then m\<lparr> market_conditions := ''LOW VOLATILITY'',
                  economic_pressures := economic_pressures m
                    @ [''Low beta indicates defensive characteristics''] \<rparr>
          else m)"

text \<open>
  \<^verbatim>\<open>MacroEconomicAnalysis.analyze_macro_environment\<close>. The ticker object is modelled
  by its \<^verbatim>\<open>info\<close> dictionary; \<open>sector\<close> and \<open>industry\<close> are strings, empty when the
  source's value is falsy.
\<close>

definition analyze_macro_environment :: "info \<Rightarrow> string \<Rightarrow> string \<Rightarrow> macro_analysis" where
  "analyze_macro_environment ticker_info sector industry =
     beta_rule ticker_info (sector_rules (lower sector) (lower industry) macro_default)"

subsection \<open>Sentiment classification\<close>

record sentiment =
  overall_sentiment :: string
  retail_interest :: string
  institutional_interest :: string
  analyst_sentiment :: string
  momentum_sentiment :: string
  indicators :: "string list"

definition sentiment_default :: sentiment where
  "sentiment_default = \<lparr> overall_sentiment = ''NEUTRAL'', retail_interest = ''MEDIUM'',
     institutional_interest = ''MEDIUM'', analyst_sentiment = ''NEUTRAL'',
     momentum_sentiment = ''NEUTRAL'', indicators = [] \<rparr>"

text \<open>Volume analysis. An absent volume key defaults to 0, which fails the guard as a
  value that is not a number does.\<close>

definition volume_rule :: "info \<Rightarrow> sentiment \<Rightarrow> sentiment" where
  "volume_rule i s =
     (case (averageVolume i, volume i) of
        (Some avg_volume, Some current_volume) \<Rightarrow>
          if avg_volume > 0 then
            let volume_ratio = current_volume / avg_volume in
            if volume_ratio > 1.5
            then s\<lparr> retail_interest := ''HIGH'',
                    indicators := indicators s
                      @ [''High trading volume suggests strong market interest''] \<rparr>
            else if volume_ratio < 0.7
            then s\<lparr> retail_interest := ''LOW'',
                    indicators := indicators s
                      @ [''Low trading volume suggests weak interest''] \<rparr>
            else s
          else s
      | _ \<Rightarrow> s)"

definition analyst_rule :: "info \<Rightarrow> sentiment \<Rightarrow> sentiment" where
  "analyst_rule i s =
     (let recommendation = (case recommendationKey i of
                              None \<Rightarrow> []
                            | Some k \<Rightarrow> if k \<noteq> [] then upper k else [])
      in if recommendation \<in> set [''STRONG_BUY'', ''BUY'']
         then s\<lparr> analyst_sentiment := ''BULLISH'',
                 indicators := indicators s @ [''Analyst recommendations are bullish''] \<rparr>
         else if recommendation \<in> set [''STRONG_SELL'', ''SELL'']
         then s\<lparr> analyst_sentiment := ''BEARISH'',
                 indicators := indicators s @ [''Analyst recommendations are bearish''] \<rparr>
         else s)"

text \<open>
  Price momentum over the last 20 closes. \<open>hist_data\<close> is the \<^verbatim>\<open>Close\<close> column, or
  \<^term>\<open>None\<close> when there is no history. The return is computed on numpy floats, so a
  zero close 20 points back gives an infinity or NaN rather than an exception.
\<close>

definition momentum_rule :: "real list option \<Rightarrow> sentiment \<Rightarrow> sentiment" where
  "momentum_rule hist_data s =
     (case hist_data of
        None \<Rightarrow> s
      | Some closes \<Rightarrow>
          if length closes \<ge> 20 then
            let c_last = Fin (last closes);
                c_20 = Fin (closes ! (length closes - 20));
                recent_return = np_mul (np_div (np_sub c_last c_20) c_20) (Fin 100)
            in if np_less (Fin 10) recent_return
               then s\<lparr> momentum_sentiment := ''VERY BULLISH'',
                       indicators := indicators s
                         @ [''Strong recent price momentum indicates positive sentiment''] \<rparr>
               else if np_less (Fin 5) recent_return
               then s\<lparr> momentum_sentiment := ''BULLISH'' \<rparr>
               else if np_less recent_return (Fin (-10))
               then s\<lparr> momentum_sentiment := ''VERY BEARISH'',
                       indicators := indicators s
                         @ [''Weak recent price momentum indicates negative sentiment''] \<rparr>
               else if np_less recent_return (Fin (-5))
               then s\<lparr> momentum_sentiment := ''BEARISH'' \<rparr>
               else s
          else s)"

definition institutional_rule :: "info \<Rightarrow> sentiment \<Rightarrow> sentiment" where
  "institutional_rule i s =
     (case heldPercentInstitutions i of
        None \<Rightarrow> s
      | Some inst_ownership \<Rightarrow>
          if inst_ownership > 70
          then s\<lparr> institutional_interest := ''HIGH'',
                  indicators := indicators s
                    @ [''High institutional ownership indicates professional confidence''] \<rparr>
          else if inst_ownership < 30
          then s\<lparr> institutional_interest := ''LOW'',
                  indicators := indicators s
                    @ [''Low institutional ownership may indicate lack of professional interest''] \<rparr>
          else s)"

text \<open>The local variable \<^verbatim>\<open>sentiment_score\<close>, as computed from the four labels.\<close>

definition sentiment_score :: "sentiment \<Rightarrow> int" where
  "sentiment_score s =
     (let sc0 = 0;
          sc1 = (if analyst_sentiment s = ''BULLISH'' then sc0 + 30
                 else if analyst_sentiment s = ''BEARISH'' then sc0 - 30 else sc0);
          sc2 = (if momentum_sentiment s \<in> set [''VERY BULLISH'', ''BULLISH''] then sc1 + 25
                 else if momentum_sentiment s \<in> set [''VERY BEARISH'', ''BEARISH''] then sc1 - 25
                 else sc1);
          sc3 = (if retail_interest s = ''HIGH'' then sc2 + 20
                 else if retail_interest s = ''LOW'' then sc2 - 20 else sc2);
          sc4 = (if institutional_interest s = ''HIGH'' then sc3 + 25
                 else if institutional_interest s = ''LOW'' then sc3 - 15 else sc3)
      in sc4)"

definition overall_rule :: "sentiment \<Rightarrow> sentiment" where
  "overall_rule s =
     (let score = sentiment_score s
      in if score > 40 then s\<lparr> overall_sentiment := ''BULLISH'' \<rparr>
         else if score > 15 then s\<lparr> overall_sentiment := ''SLIGHTLY BULLISH'' \<rparr>
         else if score < -40 then s\<lparr> overall_sentiment := ''BEARISH'' \<rparr>
         else if score < -15 then s\<lparr> overall_sentiment := ''SLIGHTLY BEARISH'' \<rparr>
         else s)"

text \<open>\<^verbatim>\<open>SocialSentimentAnalysis.analyze_sentiment\<close>; the ticker symbol is not used.\<close>

definition analyze_sentiment :: "string \<Rightarrow> info \<Rightarrow> real list option \<Rightarrow> sentiment" where
  "analyze_sentiment ticker i hist_data =
     overall_rule (institutional_rule i (momentum_rule hist_data (analyst_rule i
       (volume_rule i sentiment_default))))"

subsection \<open>Discounted cash flow\<close>

record dcf_result =
  enterprise_value :: real
  equity_value_per_share :: "real option"
  pv_cash_flows :: real
  pv_terminal :: real
  asm_growth_rate :: real
  asm_terminal_growth :: real
  asm_discount_rate :: real
  asm_years :: nat

text \<open>
  The projection loop \<^verbatim>\<open>for year in range(1, years + 1)\<close>. The state is
  \<open>(current_fcf, pv_sum)\<close>, where \<open>pv_sum\<close> is the variable \<^verbatim>\<open>pv_cash_flows\<close>;
  \<open>year\<close> is the loop variable and \<open>n\<close> the number of iterations left. The division
  raises when \<open>(1 + discount_rate) ** year\<close> is zero.
\<close>

fun dcf_loop :: "real \<Rightarrow> real \<Rightarrow> nat \<Rightarrow> nat \<Rightarrow> real \<times> real \<Rightarrow> py_error + real \<times> real" where
  "dcf_loop growth_rate discount_rate year 0 st = Inr st"
| "dcf_loop growth_rate discount_rate year (Suc n) (current_fcf, pv_sum) =
     (let current_fcf' = current_fcf * (1 + growth_rate) in
      if (1 + discount_rate) ^ year = 0 then Inl ZeroDivisionError
      else dcf_loop growth_rate discount_rate (Suc year) n
             (current_fcf', pv_sum + current_fcf' / (1 + discount_rate) ^ year))"

text \<open>
  \<^verbatim>\<open>ValuationModels.calculate_dcf\<close>. The result is \<open>Inr None\<close> for \<^verbatim>\<open>return None\<close>,
  \<open>Inr (Some r)\<close> for the returned dictionary and \<open>Inl e\<close> for a raised exception.
  \<open>years\<close> is a natural number (the only caller passes 5).
\<close>

definition calculate_dcf ::
  "real option \<Rightarrow> real option \<Rightarrow> real option \<Rightarrow> real option \<Rightarrow> nat \<Rightarrow> real option
     \<Rightarrow> py_error + dcf_result option" where
  "calculate_dcf free_cash_flow growth_rate terminal_growth_rate discount_rate years shares_outstanding =
     (case free_cash_flow of
        None \<Rightarrow> Inr None
      | Some fcf \<Rightarrow>
          if fcf \<le> 0 then Inr None
          else
            let g = (case growth_rate of None \<Rightarrow> 0.05 | Some x \<Rightarrow> x);
                tg = (case terminal_growth_rate of None \<Rightarrow> 0.025 | Some x \<Rightarrow> x);
                d = (case discount_rate of None \<Rightarrow> 0.10 | Some x \<Rightarrow> x)
            in case dcf_loop g d 1 years (fcf, 0) of
                 Inl e \<Rightarrow> Inl e
               | Inr (current_fcf, pv_cf) \<Rightarrow>
                   let terminal_fcf = current_fcf * (1 + tg) in
                   if d - tg = 0 then Inl ZeroDivisionError
                   else
                     let terminal_value = terminal_fcf / (d - tg) in
                     if (1 + d) ^ years = 0 then Inl ZeroDivisionError
                     else
                       let pv_term = terminal_value / (1 + d) ^ years;
                           ev = pv_cf + pv_term
                       in Inr (Some \<lparr> enterprise_value = ev,
                                      equity_value_per_share =
                                        (case shares_outstanding of
                                           None \<Rightarrow> None
                                         | Some s \<Rightarrow> if s \<noteq> 0 \<and> s > 0 then Some (ev / s) else None),
                                      pv_cash_flows = pv_cf,
                                      pv_terminal = pv_term,
                                      asm_growth_rate = g,
                                      asm_terminal_growth = tg,
                                      asm_discount_rate = d,
                                      asm_years = years \<rparr>))"

section \<open>Composite scorer\<close>

subsection \<open>Inputs\<close>

text \<open>
  The \<^verbatim>\<open>stock_data\<close> dictionary that \<^verbatim>\<open>generate_ai_analysis\<close> reads, by key. A numeric
  field is \<^term>\<open>None\<close> when the key is absent or holds a string such as \<^verbatim>\<open>'N/A'\<close>.
\<close>

datatype return_text =
    NoPercent          \<comment> \<open>not a string, or a string without \<^verbatim>\<open>%\<close>\<close>
  | Unparsable         \<comment> \<open>a string with \<^verbatim>\<open>%\<close> on which \<^verbatim>\<open>float\<close> raises\<close>
  | Percent real       \<comment> \<open>a string with \<^verbatim>\<open>%\<close> that \<^verbatim>\<open>float\<close> parses to this number\<close>

record stock_data =
  currentPrice :: "real option"
  rsi :: "real option"
  priceVsSMA200 :: "real option"
  priceVsSMA50 :: "real option"
  priceVsSMA20 :: "real option"
  macd :: "real option"
  macdSignal :: "real option"
  macdHistogram :: "real option"
  bbPercentB :: "real option"
  stochK :: "real option"
  stochD :: "real option"
  volumeRatio :: "real option"
  momentum :: "real option"
  oneYearReturn :: return_text
  fiveYearReturn :: return_text
  sector :: string
  industry :: string
  symbol :: string

definition no_stock_data :: stock_data where
  "no_stock_data = \<lparr> currentPrice = None, rsi = None, priceVsSMA200 = None,
     priceVsSMA50 = None, priceVsSMA20 = None, macd = None, macdSignal = None,
     macdHistogram = None, bbPercentB = None, stochK = None, stochD = None,
     volumeRatio = None, momentum = None, oneYearReturn = NoPercent,
     fiveYearReturn = NoPercent, sector = [], industry = [], symbol = [] \<rparr>"

subsection \<open>Contributions\<close>

text \<open>
  An entry of the \<^verbatim>\<open>risks\<close> or \<^verbatim>\<open>opportunities\<close> list: a literal string, or an f-string
  with one number shown to one decimal between a prefix and a suffix. Every block appends
  a text of its own, at most once.
\<close>

datatype msg = Text string | Fmt string real string

text \<open>
  What one block of the scorer adds: to the score and to the maximum of its category, and
  to the \<^verbatim>\<open>risks\<close> and \<^verbatim>\<open>opportunities\<close> lists.
\<close>

record contribution =
  earned :: real
  possible :: real
  risks :: "msg list"
  opps :: "msg list"

definition contrib :: "real \<Rightarrow> real \<Rightarrow> msg list \<Rightarrow> msg list \<Rightarrow> contribution" where
  "contrib e p rs os = \<lparr> earned = e, possible = p, risks = rs, opps = os \<rparr>"

definition czero :: contribution where
  "czero = contrib 0 0 [] []"

definition cadd :: "contribution \<Rightarrow> contribution \<Rightarrow> contribution" where
  "cadd a b = \<lparr> earned = earned a + earned b, possible = possible a + possible b,
               risks = risks a @ risks b, opps = opps a @ opps b \<rparr>"

text \<open>The blocks of a category, run in order from zero totals and empty lists.\<close>

definition csum :: "contribution list \<Rightarrow> contribution" where
  "csum cs = foldl cadd czero cs"

text \<open>\<^verbatim>\<open>(score / max * 100) if max > 0 else 50\<close>\<close>

definition score_of :: "contribution \<Rightarrow> real" where
  "score_of c = (if possible c > 0 then earned c / possible c * 100 else 50)"

subsection \<open>Technical blocks\<close>

definition tech_rsi :: "stock_data \<Rightarrow> contribution" where
  "tech_rsi sd =
     (case rsi sd of
        None \<Rightarrow> czero
      | Some r \<Rightarrow>
          if 30 \<le> r \<and> r \<le> 70 then contrib 15 20 [] []
          else if r < 30 then contrib 20 20 [] [Text ''Oversold RSI suggests potential rebound'']
          else if r > 70 then contrib 5 20 [Text ''High RSI suggests potential pullback''] []
          else contrib 0 20 [] [])"

text \<open>\<^verbatim>\<open>if v and isinstance(v, (int, float))\<close>: a number other than zero.\<close>

definition truthy :: "real option \<Rightarrow> real option" where
  "truthy v = (case v of None \<Rightarrow> None | Some x \<Rightarrow> if x \<noteq> 0 then Some x else None)"

definition tech_ma :: "stock_data \<Rightarrow> contribution" where
  "tech_ma sd = csum
     [contrib 0 25 [] [],
      (case truthy (priceVsSMA200 sd) of
         None \<Rightarrow> czero
       | Some v \<Rightarrow>
           if v > 0 then contrib 10 0 [] []
           else contrib 2 0
                  [Text ''Trading below 200-day moving average indicates weak long-term trend''] []),
      (case truthy (priceVsSMA50 sd) of
         None \<Rightarrow> czero
       | Some v \<Rightarrow> if v > 0 then contrib 8 0 [] [] else contrib 3 0 [] []),
      (case truthy (priceVsSMA20 sd) of
         None \<Rightarrow> czero
       | Some v \<Rightarrow> if v > 0 then contrib 7 0 [] [] else contrib 3 0 [] [])]"

definition tech_macd :: "stock_data \<Rightarrow> contribution" where
  "tech_macd sd = csum
     [contrib 0 15 [] [],
      (case (macd sd, macdSignal sd) of
         (Some m, Some s) \<Rightarrow>
           if m > s then contrib 10 0 [] []
           else contrib 3 0 [Text ''MACD bearish crossover indicates weakening momentum''] []
       | _ \<Rightarrow> czero),
      (case macdHistogram sd of
         None \<Rightarrow> czero
       | Some h \<Rightarrow> if h > 0 then contrib 5 0 [] [] else contrib 1 0 [] [])]"

definition tech_bb :: "stock_data \<Rightarrow> contribution" where
  "tech_bb sd = csum
     [contrib 0 10 [] [],
      (case bbPercentB sd of
         None \<Rightarrow> czero
       | Some b \<Rightarrow>
           if 20 \<le> b \<and> b \<le> 80 then contrib 10 0 [] []
           else if b < 20
           then contrib 8 0 [] [Text ''Near lower Bollinger Band suggests potential bounce'']
           else if b > 80
           then contrib 5 0 [Text ''Near upper Bollinger Band suggests potential pullback''] []
           else czero)]"

definition tech_stoch :: "stock_data \<Rightarrow> contribution" where
  "tech_stoch sd = csum
     [contrib 0 10 [] [],
      (case (stochK sd, stochD sd) of
         (Some k, Some d) \<Rightarrow>
           if k > d \<and> k < 80 then contrib 8 0 [] []
           else if k < d \<and> k > 20 then contrib 3 0 [] []
           else if k < 20
           then contrib 7 0 [] [Text ''Oversold stochastic suggests potential reversal'']
           else czero
       | _ \<Rightarrow> czero)]"

definition tech_volume :: "stock_data \<Rightarrow> contribution" where
  "tech_volume sd = csum
     [contrib 0 10 [] [],
      (case volumeRatio sd of
         None \<Rightarrow> czero
       | Some v \<Rightarrow>
           if v > 120 then contrib 8 0 [] []
           else if v < 80 then contrib 3 0 [] []
           else czero)]"

definition tech_momentum :: "stock_data \<Rightarrow> contribution" where
  "tech_momentum sd = csum
     [contrib 0 10 [] [],
      (case momentum sd of
         None \<Rightarrow> czero
       | Some m \<Rightarrow>
           if m > 0 then contrib 8 0 [] []
           else contrib 2 0 [Text ''Negative momentum indicates downward price pressure''] [])]"

definition technical_blocks :: "stock_data \<Rightarrow> contribution list" where
  "technical_blocks sd =
     [tech_rsi sd, tech_ma sd, tech_macd sd, tech_bb sd, tech_stoch sd, tech_volume sd,
      tech_momentum sd]"

subsection \<open>Fundamental blocks\<close>

text \<open>\<^verbatim>\<open>isinstance(x, (int, float)) and x > 0\<close>\<close>

definition positive :: "real option \<Rightarrow> real option" where
  "positive v = (case v of None \<Rightarrow> None | Some x \<Rightarrow> if x > 0 then Some x else None)"

definition fund_pe :: "info \<Rightarrow> contribution" where
  "fund_pe i = csum
     [contrib 0 20 [] [],
      (case positive (trailingPE i) of
         None \<Rightarrow> czero
       | Some pe \<Rightarrow>
           if 10 \<le> pe \<and> pe \<le> 25 then contrib 15 0 [] []
           else if pe < 10
           then contrib 18 0 [] [Text ''Attractive P/E ratio indicates potential value'']
           else if pe > 30
           then contrib 5 0 [Text ''Elevated P/E ratio indicates expensive valuation''] []
           else czero)]"

definition fund_peg :: "info \<Rightarrow> contribution" where
  "fund_peg i =
     (case positive (pegRatio i) of
        None \<Rightarrow> czero
      | Some peg \<Rightarrow>
          if peg < 1 then contrib 15 15 [] [Text ''Low PEG ratio suggests growth potential'']
          else if 1 \<le> peg \<and> peg \<le> 2 then contrib 10 15 [] []
          else contrib 3 15
                 [Text ''High PEG ratio suggests overvaluation relative to growth''] [])"

definition fund_health :: "info \<Rightarrow> contribution" where
  "fund_health i = csum
     [contrib 0 20 [] [],
      (case profitMargins i of
         None \<Rightarrow> czero
       | Some pm \<Rightarrow>
           if pm > 0.15 then contrib 8 0 [] []
           else if pm > 0 then contrib 5 0 [] []
           else contrib 1 0 [Text ''Negative profit margins indicate financial distress''] []),
      (case returnOnEquity i of
         None \<Rightarrow> czero
       | Some roe \<Rightarrow>
           if roe > 0.15 then contrib 6 0 [] []
           else if roe > 0 then contrib 3 0 [] []
           else contrib 1 0 [Text ''Negative ROE indicates poor capital efficiency''] [])]"

definition fund_debt :: "info \<Rightarrow> contribution" where
  "fund_debt i =
     (case debtToEquity i of
        None \<Rightarrow> czero
      | Some de \<Rightarrow>
          if de < 1 then contrib 10 10 [] []
          else if de < 2 then contrib 7 10 [] []
          else contrib 3 10 [Text ''High debt-to-equity ratio increases financial risk''] [])"

definition fund_liquidity :: "info \<Rightarrow> contribution" where
  "fund_liquidity i =
     (case currentRatio i of
        None \<Rightarrow> czero
      | Some cr \<Rightarrow>
          if 1.5 \<le> cr \<and> cr \<le> 3 then contrib 10 10 [] []
          else if cr < 1
          then contrib 2 10 [Text ''Current ratio below 1 suggests liquidity concerns''] []
          else contrib 0 10 [] [])"

definition fund_growth :: "info \<Rightarrow> contribution" where
  "fund_growth i = csum
     [contrib 0 15 [] [],
      (case revenueGrowth i of
         None \<Rightarrow> czero
       | Some rg \<Rightarrow>
           if rg > 0.10
           then contrib 8 0 [] [Text ''High revenue growth suggests market expansion'']
           else if rg > 0 then contrib 5 0 [] []
           else contrib 1 0 [Text ''Declining revenue indicates business contraction''] []),
      (case earningsQuarterlyGrowth i of
         None \<Rightarrow> czero
       | Some eg \<Rightarrow>
           if eg > 0.15
           then contrib 7 0 [] [Text ''High earnings growth indicates improving fundamentals'']
           else if eg > 0 then contrib 4 0 [] []
           else contrib 1 0
                  [Text ''Negative earnings growth indicates declining profitability''] [])]"

definition fund_market :: "info \<Rightarrow> contribution" where
  "fund_market i = csum
     [contrib 0 10 [] [],
      (case marketCap i of
         None \<Rightarrow> czero
       | Some mc \<Rightarrow> if mc > 10000000000 then contrib 5 0 [] [] else czero),
      (case beta i of
         None \<Rightarrow> czero
       | Some b \<Rightarrow>
           if 0.8 \<le> b \<and> b \<le> 1.2 then contrib 5 0 [] []
           else if b > 1.5
           then contrib 2 0
                  [Text ''High beta indicates high volatility and market sensitivity''] []
           else czero)]"

definition fundamental_blocks :: "info \<Rightarrow> contribution list" where
  "fundamental_blocks i =
     [fund_pe i, fund_peg i, fund_health i, fund_debt i, fund_liquidity i, fund_growth i,
      fund_market i]"

subsection \<open>Momentum blocks\<close>

definition momentum_1y :: "stock_data \<Rightarrow> contribution" where
  "momentum_1y sd = csum
     [contrib 0 30 [] [],
      (case oneYearReturn sd of
         Percent ret_val \<Rightarrow>
           if ret_val > 20 then contrib 20 0 [] []
           else if ret_val > 0 then contrib 12 0 [] []
           else contrib 3 0
                  [Text ''Negative 1-year return indicates poor recent performance''] []
       | _ \<Rightarrow> czero)]"

definition momentum_5y :: "stock_data \<Rightarrow> contribution" where
  "momentum_5y sd = csum
     [contrib 0 20 [] [],
      (case fiveYearReturn sd of
         Percent ret_val \<Rightarrow>
           if ret_val > 50
           then contrib 20 0 [] [Text ''Strong 5-year track record indicates quality investment'']
           else if ret_val > 20 then contrib 15 0 [] []
           else if ret_val > 0 then contrib 8 0 [] []
           else contrib 2 0
                  [Text ''Negative 5-year return indicates long-term underperformance''] []
       | _ \<Rightarrow> czero)]"

definition momentum_blocks :: "stock_data \<Rightarrow> contribution list" where
  "momentum_blocks sd = [momentum_1y sd, momentum_5y sd]"

subsection \<open>Value blocks\<close>

definition value_pe :: "info \<Rightarrow> contribution" where
  "value_pe i =
     (case positive (trailingPE i) of
        None \<Rightarrow> czero
      | Some pe \<Rightarrow>
          if pe < 15 then contrib 25 25 [] []
          else if pe < 20 then contrib 18 25 [] []
          else if pe < 25 then contrib 12 25 [] []
          else contrib 5 25 [] [])"

definition value_pb :: "info \<Rightarrow> contribution" where
  "value_pb i =
     (case positive (priceToBook i) of
        None \<Rightarrow> czero
      | Some pb \<Rightarrow>
          if pb < 1 then contrib 25 25 [] [Text ''Price below book value suggests deep value'']
          else if pb < 2 then contrib 18 25 [] []
          else if pb < 3 then contrib 12 25 [] []
          else contrib 5 25 [] [])"

definition value_peg :: "info \<Rightarrow> contribution" where
  "value_peg i =
     (case positive (pegRatio i) of
        None \<Rightarrow> czero
      | Some peg \<Rightarrow>
          if peg < 0.8 then contrib 25 25 [] []
          else if peg < 1.2 then contrib 18 25 [] []
          else contrib 8 25 [] [])"

text \<open>The analyst target, compared when the target is a number and the price positive.\<close>

definition value_target :: "info \<Rightarrow> real \<Rightarrow> contribution" where
  "value_target i current_price =
     (case targetMeanPrice i of
        None \<Rightarrow> czero
      | Some target_mean \<Rightarrow>
          if current_price > 0 then
            let upside = (target_mean - current_price) / current_price * 100 in
            if upside > 20
            then contrib 25 25 [] [Fmt ''Analyst target suggests '' upside ''% upside potential'']
            else if upside > 10 then contrib 18 25 [] []
            else if upside > 0 then contrib 12 25 [] []
            else contrib 5 25 [] []
          else czero)"

definition value_blocks :: "info \<Rightarrow> real \<Rightarrow> contribution list" where
  "value_blocks i current_price =
     [value_pe i, value_pb i, value_peg i, value_target i current_price]"

subsection \<open>Growth blocks\<close>

definition growth_revenue :: "info \<Rightarrow> contribution" where
  "growth_revenue i =
     (case revenueGrowth i of
        None \<Rightarrow> czero
      | Some rg \<Rightarrow>
          if rg > 0.20 then contrib 30 30 [] []
          else if rg > 0.10 then contrib 20 30 [] []
          else if rg > 0 then contrib 12 30 [] []
          else contrib 3 30 [] [])"

definition growth_earnings :: "info \<Rightarrow> contribution" where
  "growth_earnings i =
     (case earningsQuarterlyGrowth i of
        None \<Rightarrow> czero
      | Some eg \<Rightarrow>
          if eg > 0.25 then contrib 30 30 [] []
          else if eg > 0.15 then contrib 20 30 [] []
          else if eg > 0 then contrib 12 30 [] []
          else contrib 3 30 [] [])"

definition growth_peg :: "info \<Rightarrow> contribution" where
  "growth_peg i =
     (case positive (pegRatio i) of
        None \<Rightarrow> czero
      | Some peg \<Rightarrow>
          if peg < 1 then contrib 20 20 [] []
          else if peg < 1.5 then contrib 15 20 [] []
          else contrib 5 20 [] [])"

definition growth_forward_pe :: "info \<Rightarrow> contribution" where
  "growth_forward_pe i =
     (case (positive (forwardPE i), positive (trailingPE i)) of
        (Some fpe, Some pe) \<Rightarrow>
          if fpe < pe then contrib 20 20 [] [] else contrib 8 20 [] []
      | _ \<Rightarrow> czero)"

definition growth_blocks :: "info \<Rightarrow> contribution list" where
  "growth_blocks i =
     [growth_revenue i, growth_earnings i, growth_peg i, growth_forward_pe i]"

subsection \<open>Adjustments\<close>

text \<open>
  The discounted cash flow run of the scorer: growth is the mean of revenue and earnings
  growth (0.05 each when unknown) clamped to [0.02, 0.15], the discount rate is
  \<open>0.03 + beta * 0.07\<close> (beta 1.0 when unknown), the terminal growth 0.025, over 5 years.
\<close>

definition scorer_dcf :: "info \<Rightarrow> py_error + dcf_result option" where
  "scorer_dcf i =
     (let revenue_growth_val = (case revenueGrowth i of None \<Rightarrow> 0.05 | Some x \<Rightarrow> x);
          earnings_growth_val = (case earningsQuarterlyGrowth i of None \<Rightarrow> 0.05 | Some x \<Rightarrow> x);
          beta_val = (case beta i of None \<Rightarrow> 1.0 | Some b \<Rightarrow> b);
          discount_rate = 0.03 + beta_val * 0.07;
          growth_rate = min (max ((revenue_growth_val + earnings_growth_val) / 2) 0.02) 0.15
      in case positive (freeCashflow i) of
           None \<Rightarrow> Inr None
         | Some fcf \<Rightarrow>
             calculate_dcf (Some fcf) (Some growth_rate) (Some 0.025) (Some discount_rate) 5
               (sharesOutstanding i))"

text \<open>The per-share value the scorer uses: present and not zero.\<close>

definition dcf_price_of :: "dcf_result option \<Rightarrow> real option" where
  "dcf_price_of r = (case r of None \<Rightarrow> None | Some d \<Rightarrow> truthy (equity_value_per_share d))"

definition dcf_adjustment :: "dcf_result option \<Rightarrow> real \<Rightarrow> contribution" where
  "dcf_adjustment r current_price =
     (case dcf_price_of r of
        None \<Rightarrow> czero
      | Some dcf_price \<Rightarrow>
          if current_price > 0 then
            if dcf_price > current_price * 1.15
            then contrib 15 0 []
                   [Fmt ''DCF model suggests ''
                        ((dcf_price - current_price) / current_price * 100)
                        ''% upside potential'']
            else if dcf_price < current_price * 0.85
            then contrib (- 10) 0
                   [Fmt ''DCF model suggests ''
                        ((dcf_price - current_price) / current_price * 100)
                        ''% downside risk''] []
            else czero
          else czero)"

definition relative_adjustment :: "relative_assessment \<Rightarrow> contribution" where
  "relative_adjustment relative_val =
     (if overall_valuation relative_val = ''CHEAP''
      then contrib 10 0 []
             [Text ''Relative valuation suggests stock is trading at a discount to market'']
      else if overall_valuation relative_val = ''EXPENSIVE''
      then contrib (- 10) 0
             [Text ''Relative valuation suggests stock is trading at a premium to market''] []
      else czero)"

text \<open>
  The macro analysis is the empty dictionary when there is no ticker object; then both
  lookups give \<^verbatim>\<open>None\<close> and nothing is adjusted.
\<close>

definition macro_outlook_adjustment :: "macro_analysis option \<Rightarrow> string \<Rightarrow> contribution" where
  "macro_outlook_adjustment m sec =
     (case m of
        None \<Rightarrow> czero
      | Some ma \<Rightarrow>
          if sector_outlook ma = ''POSITIVE''
          then contrib 5 0 [] [Text (sec @ '' sector shows positive outlook'')]
          else if sector_outlook ma \<in> set [''CAUTIOUS'', ''VOLATILE'']
          then contrib (- 5) 0 [Text (sec @ '' sector faces headwinds'')] []
          else czero)"

definition macro_resilience_adjustment :: "macro_analysis option \<Rightarrow> contribution" where
  "macro_resilience_adjustment m =
     (case m of
        None \<Rightarrow> czero
      | Some ma \<Rightarrow>
          if recession_resilience ma = ''HIGH''
          then contrib 3 0 []
                 [Text ''Company shows defensive characteristics in economic downturns'']
          else if recession_resilience ma = ''LOW''
          then contrib (- 3) 0 [Text ''Company is vulnerable to economic downturns''] []
          else czero)"

definition sentiment_adjustment :: "sentiment \<Rightarrow> contribution" where
  "sentiment_adjustment s =
     (if overall_sentiment s = ''BULLISH''
      then contrib 10 0 [] [Text ''Market sentiment is bullish'']
      else if overall_sentiment s = ''BEARISH''
      then contrib (- 10) 0 [Text ''Market sentiment is bearish''] []
      else czero)"

subsection \<open>Scores\<close>

text \<open>\<^verbatim>\<open>max(0, min(100, x))\<close>\<close>

definition clamp100 :: "real \<Rightarrow> real" where
  "clamp100 x = max 0 (min 100 x)"

text \<open>
  The state of the scorer where the overall score is computed: the blocks of each category
  with the adjustments that were added to its score, all blocks in the order in which the
  code runs them (\<open>st_blocks\<close>), and what the sub-analyses returned.
\<close>

record scorer_state =
  st_technical :: "contribution list"
  st_fundamental :: "contribution list"
  st_momentum :: "contribution list"
  st_value :: "contribution list"
  st_growth :: "contribution list"
  st_blocks :: "contribution list"
  st_dcf :: "dcf_result option"
  st_relative :: relative_assessment
  st_macro :: "macro_analysis option"
  st_sentiment :: sentiment
  st_current_price :: real

text \<open>
  The scoring part of \<^verbatim>\<open>generate_ai_analysis\<close>, up to the recalculation of the scores.
  \<open>ticker_obj\<close> is the \<^verbatim>\<open>info\<close> dictionary of the ticker object, \<^term>\<open>None\<close> without one.
  The only call that can raise is the discounted cash flow.
\<close>

definition run_scorer ::
  "stock_data \<Rightarrow> real list option \<Rightarrow> info \<Rightarrow> info option \<Rightarrow> py_error + scorer_state" where
  "run_scorer sd hist_data i ticker_obj =
     (let current_price = (case currentPrice sd of None \<Rightarrow> 0 | Some p \<Rightarrow> p) in
      then_do (scorer_dcf i) (\<lambda>dcf_result.
        let relative_val = calculate_relative_valuation i;
            macro = (case ticker_obj of
                       None \<Rightarrow> None
                     | Some t \<Rightarrow> Some (analyze_macro_environment t (sector sd) (industry sd)));
            sent = analyze_sentiment (symbol sd) i hist_data
        in Inr \<lparr> st_technical = technical_blocks sd,
                 st_fundamental = fundamental_blocks i
                   @ [macro_outlook_adjustment macro (sector sd),
                      macro_resilience_adjustment macro],
                 st_momentum = momentum_blocks sd @ [sentiment_adjustment sent],
                 st_value = value_blocks i current_price
                   @ [dcf_adjustment dcf_result current_price,
                      relative_adjustment relative_val],
                 st_growth = growth_blocks i,
                 st_blocks = technical_blocks sd @ fundamental_blocks i @ momentum_blocks sd
                   @ value_blocks i current_price @ growth_blocks i
                   @ [dcf_adjustment dcf_result current_price,
                      relative_adjustment relative_val,
                      macro_outlook_adjustment macro (sector sd),
                      macro_resilience_adjustment macro,
                      sentiment_adjustment sent],
                 st_dcf = dcf_result,
                 st_relative = relative_val,
                 st_macro = macro,
                 st_sentiment = sent,
                 st_current_price = current_price \<rparr>))"

text \<open>
  The \<^verbatim>\<open>scores\<close> dictionary when the overall score is computed, in insertion order.
  Technical and growth keep the value of their first computation; value, fundamental and
  momentum are recomputed after the adjustments and clamped.
\<close>

definition scores_of :: "scorer_state \<Rightarrow> (string \<times> real) list" where
  "scores_of st =
     [(''technical'', score_of (csum (st_technical st))),
      (''fundamental'', clamp100 (score_of (csum (st_fundamental st)))),
      (''momentum'', clamp100 (score_of (csum (st_momentum st)))),
      (''value'', clamp100 (score_of (csum (st_value st)))),
      (''growth'', score_of (csum (st_growth st)))]"

definition weights :: "(string \<times> real) list" where
  "weights = [(''technical'', 0.20), (''fundamental'', 0.25), (''momentum'', 0.15),
              (''value'', 0.20), (''growth'', 0.10), (''macro'', 0.05), (''sentiment'', 0.05)]"

text \<open>\<^verbatim>\<open>sum(scores[key] * weights.get(key, 0) for key in scores if key in weights)\<close>\<close>

definition overall_score :: "(string \<times> real) list \<Rightarrow> real" where
  "overall_score scores =
     sum_list (map (\<lambda>(key, v). v * (case map_of weights key of None \<Rightarrow> 0 | Some w \<Rightarrow> w))
                   (filter (\<lambda>(key, v). key \<in> set (map fst weights)) scores))"

text \<open>
  \<^verbatim>\<open>round(x, ndigits)\<close> on the real number: to the nearest multiple of \<open>10\<^sup>-\<^sup>n\<close>, a tie going
  to the even one.
\<close>

definition py_round :: "real \<Rightarrow> nat \<Rightarrow> real" where
  "py_round x ndigits =
     (let y = x * 10 ^ ndigits;
          f = \<lfloor>y\<rfloor>;
          d = y - of_int f
      in (if d < 1 / 2 then of_int f
          else if d > 1 / 2 then of_int f + 1
          else if even f then of_int f else of_int f + 1) / 10 ^ ndigits)"

subsection \<open>The analysis result\<close>

text \<open>
  The keys of the \<^verbatim>\<open>analysis\<close> dictionary that the scorer decides: ratings, confidence,
  rounded scores, risk and opportunity lists and the price target. The signal lists and
  the generated prose are not modelled.
\<close>

record analysis =
  overallRating :: string
  investmentRecommendation :: string
  longTermOutlook :: string
  riskLevel :: string
  confidence :: real
  scores :: "(string \<times> real) list"
  riskFactors :: "msg list"
  opportunities :: "msg list"
  priceTarget :: "real option"

text \<open>
  The result when the scorer raises: the handler leaves the initial dictionary as it is
  and sets the confidence to 50.
\<close>

definition degraded_analysis :: analysis where
  "degraded_analysis = \<lparr> overallRating = ''NEUTRAL'', investmentRecommendation = ''HOLD'',
     longTermOutlook = ''MODERATE'', riskLevel = ''MEDIUM'', confidence = 50, scores = [],
     riskFactors = [], opportunities = [], priceTarget = None \<rparr>"

text \<open>
  \<^verbatim>\<open>list(set(xs))\<close>. Python does not specify the order in which a set is iterated; for
  strings it follows their hashes, which CPython salts with a seed drawn per process.
  The order is the parameter \<open>set_iter\<close>: it receives the distinct elements and returns
  them in the order of iteration, a permutation of what it received.
\<close>

definition list_of_set :: "(msg list \<Rightarrow> msg list) \<Rightarrow> msg list \<Rightarrow> msg list" where
  "list_of_set set_iter xs = set_iter (remdups xs)"

text \<open>The rating, recommendation, outlook and risk level for an overall score.\<close>

definition rating_of :: "real \<Rightarrow> string \<times> string \<times> string \<times> string" where
  "rating_of overall =
     (if overall \<ge> 75 then (''STRONG BUY'', ''BUY'', ''VERY POSITIVE'', ''LOW-MEDIUM'')
      else if overall \<ge> 65 then (''BUY'', ''BUY'', ''POSITIVE'', ''MEDIUM'')
      else if overall \<ge> 55 then (''HOLD'', ''HOLD'', ''NEUTRAL'', ''MEDIUM'')
      else if overall \<ge> 45 then (''WEAK HOLD'', ''HOLD'', ''CAUTIOUS'', ''MEDIUM-HIGH'')
      else (''SELL'', ''SELL'', ''NEGATIVE'', ''HIGH''))"

definition price_target_of :: "info \<Rightarrow> real \<Rightarrow> real \<Rightarrow> real option" where
  "price_target_of i current_price overall =
     (case positive (targetMeanPrice i) of
        Some target_mean \<Rightarrow> Some (py_round target_mean 2)
      | None \<Rightarrow>
          if current_price > 0 then
            if overall \<ge> 65 then Some (py_round (current_price * 1.15) 2)
            else if overall \<ge> 55 then Some (py_round (current_price * 1.05) 2)
            else if overall \<ge> 45 then Some (py_round (current_price * 0.95) 2)
            else Some (py_round (current_price * 0.85) 2)
          else None)"

text \<open>
  The prose part divides by the current price when there is a price target other than
  zero; with a current price of zero that raises, and the handler resets the confidence.
\<close>

definition prose_raises :: "real option \<Rightarrow> real \<Rightarrow> bool" where
  "prose_raises target current_price = (truthy target \<noteq> None \<and> current_price = 0)"

definition generate_ai_analysis ::
  "(msg list \<Rightarrow> msg list) \<Rightarrow> stock_data \<Rightarrow> real list option \<Rightarrow> info \<Rightarrow> info option
     \<Rightarrow> analysis" where
  "generate_ai_analysis set_iter sd hist_data i ticker_obj =
     (case run_scorer sd hist_data i ticker_obj of
        Inl e \<Rightarrow> degraded_analysis
      | Inr st \<Rightarrow>
          let sc = scores_of st;
              overall = overall_score sc;
              target = price_target_of i (st_current_price st) overall
          in case rating_of overall of
               (rating, recommendation, outlook, risk_level) \<Rightarrow>
                 \<lparr> overallRating = rating,
                   investmentRecommendation = recommendation,
                   longTermOutlook = outlook,
                   riskLevel = risk_level,
                   confidence = (if prose_raises target (st_current_price st) then 50
                                 else py_round overall 1),
                   scores = map (\<lambda>(k, v). (k, py_round v 1)) sc,
                   riskFactors = take 8 (list_of_set set_iter (risks (csum (st_blocks st)))),
                   opportunities = take 8 (list_of_set set_iter (opps (csum (st_blocks st)))),
                   priceTarget = target \<rparr>)"

section \<open>Example inputs\<close>

text \<open>
  An input for the sentiment example: volume twice the average, recommendation key \<^verbatim>\<open>buy\<close>, a 7%
  return over the last 20 closes and 10% institutional ownership.
\<close>

definition sentiment_example_info :: info where
  "sentiment_example_info =
     no_info\<lparr> averageVolume := Some 100, volume := Some 200,
              heldPercentInstitutions := Some 10, recommendationKey := Some ''buy'' \<rparr>"

definition sentiment_example_closes :: "real list" where
  "sentiment_example_closes = replicate 19 100 @ [107]"

text \<open>
  An input for the scorer: price 100, RSI 75, MACD below its signal line, negative
  momentum; trailing P/E 12, PEG 0.9, revenue growth 12% and an analyst target of 130.
  No price history and no ticker object.
\<close>

definition example_stock_data :: stock_data where
  "example_stock_data =
     no_stock_data\<lparr> currentPrice := Some 100, rsi := Some 75, macd := Some 1,
                    macdSignal := Some 2, momentum := Some (- 1) \<rparr>"

definition example_info :: info where
  "example_info =
     no_info\<lparr> trailingPE := Some 12, pegRatio := Some 0.9, revenueGrowth := Some 0.12,
              targetMeanPrice := Some 130 \<rparr>"

section \<open>Properties\<close>

subsection \<open>Discounted cash flow\<close>

lemma dcf_loop_nonneg:
  assumes "0 \<le> 1 + g" and "0 < 1 + d" and "0 \<le> c" and "0 \<le> p"
  shows "\<exists>c' p'. dcf_loop g d y n (c, p) = Inr (c', p') \<and> 0 \<le> c' \<and> 0 \<le> p'"
  using assms
proof (induction n arbitrary: y c p)
  case 0
  then show ?case by simp
next
  case (Suc n)
  have c': "0 \<le> c * (1 + g)"
    using Suc.prems by simp
  have pw: "0 < (1 + d) ^ y"
    using Suc.prems by simp
  have p': "0 \<le> p + c * (1 + g) / (1 + d) ^ y"
    using c' pw Suc.prems by (simp add: add_nonneg_nonneg)
  have nz: "1 + d \<noteq> 0"
    using Suc.prems by simp
  from Suc.IH [OF Suc.prems(1) Suc.prems(2) c' p', of "Suc y"] nz
  show ?case by (simp add: Let_def)
qed

text \<open>
  C1, as the specification states it, fails on the code: \<^verbatim>\<open>calculate_dcf\<close> has no guard
  on the terminal growth rate. With a free cash flow of 100, growth 0.05 and a terminal
  growth rate (0.05) above the discount rate (0.03), over 5 years, it returns a result, and
  the enterprise value of that result is negative.
\<close>

theorem C1_dcf_terminal_above_discount_counterexample:
  "\<exists>r. calculate_dcf (Some 100) (Some 0.05) (Some 0.05) (Some 0.03) 5 None = Inr (Some r)
       \<and> enterprise_value r < 0"
  by (simp add: calculate_dcf_def Let_def eval_nat_numeral)

text \<open>
  C1, amended: \<^verbatim>\<open>calculate_dcf\<close> returns no result whenever the free cash flow is not a
  number or is \<open>\<le> 0\<close>, whatever the rates are. When the free cash flow is positive, the
  growth rate and the terminal growth rate are at least \<open>-1\<close>, the discount rate is above
  \<open>-1\<close> and the terminal growth rate is below the discount rate, it returns a result whose
  enterprise value is not negative.
\<close>

theorem C1_dcf_fails_closed_on_cash_flow_and_nonneg:
  "(fcf = None \<or> (\<exists>x. fcf = Some x \<and> x \<le> 0)
      \<longrightarrow> calculate_dcf fcf g tg d years shares = Inr None)
   \<and> ((\<exists>x. fcf = Some x \<and> 0 < x) \<and> g = Some gv \<and> tg = Some tgv \<and> d = Some dv
        \<and> -1 \<le> gv \<and> -1 \<le> tgv \<and> tgv < dv \<and> -1 < dv
      \<longrightarrow> (\<exists>r. calculate_dcf fcf g tg d years shares = Inr (Some r) \<and> 0 \<le> enterprise_value r))"
proof (intro conjI impI)
  assume "fcf = None \<or> (\<exists>x. fcf = Some x \<and> x \<le> 0)"
  then show "calculate_dcf fcf g tg d years shares = Inr None"
    by (auto simp: calculate_dcf_def)
next
  assume a: "(\<exists>x. fcf = Some x \<and> 0 < x) \<and> g = Some gv \<and> tg = Some tgv \<and> d = Some dv
        \<and> -1 \<le> gv \<and> -1 \<le> tgv \<and> tgv < dv \<and> -1 < dv"
  then obtain x where x: "fcf = Some x" "0 < x" by blast
  have g1: "0 \<le> 1 + gv" and d1: "0 < 1 + dv" and t1: "0 \<le> 1 + tgv" and dt: "0 < dv - tgv"
    using a by simp_all
  from dcf_loop_nonneg [OF g1 d1, of x 0 1 years] x
  obtain c' p' where l: "dcf_loop gv dv 1 years (x, 0) = Inr (c', p')" "0 \<le> c'" "0 \<le> p'"
    by auto
  have pw: "0 < (1 + dv) ^ years"
    using d1 by simp
  have tv: "0 \<le> c' * (1 + tgv) / (dv - tgv)"
    using l(2) t1 dt by simp
  have "0 \<le> c' * (1 + tgv) / (dv - tgv) / (1 + dv) ^ years"
    by (rule divide_nonneg_pos [OF tv pw])
  then have ev: "0 \<le> p' + c' * (1 + tgv) / (dv - tgv) / (1 + dv) ^ years"
    using l(3) by simp
  show "\<exists>r. calculate_dcf fcf g tg d years shares = Inr (Some r) \<and> 0 \<le> enterprise_value r"
    using a x l pw dt ev by (simp add: calculate_dcf_def Let_def)
qed

theorem C1_dcf_witness:
  "calculate_dcf (Some 0) (Some 0.10) (Some 0.025) (Some 0.10) 5 None = Inr None
   \<and> (\<exists>r. calculate_dcf (Some 100) (Some 0.10) (Some 0.025) (Some 0.10) 5 None = Inr (Some r)
          \<and> 0 \<le> enterprise_value r)"
  using C1_dcf_fails_closed_on_cash_flow_and_nonneg
          [where fcf = "Some 0" and g = "Some 0.10" and gv = "0.10" and tg = "Some 0.025"
             and tgv = "0.025" and d = "Some 0.10" and dv = "0.10" and years = 5 and shares = None]
        C1_dcf_fails_closed_on_cash_flow_and_nonneg
          [where fcf = "Some 100" and g = "Some 0.10" and gv = "0.10" and tg = "Some 0.025"
             and tgv = "0.025" and d = "Some 0.10" and dv = "0.10" and years = 5 and shares = None]
  by simp

subsection \<open>Series operations\<close>

lemma length_align_eq: "length xs = length ys \<Longrightarrow> length (align f xs ys) = length xs"
  by (induction f xs ys rule: align.induct) auto

lemma align_nth: "length xs = length ys \<Longrightarrow> i < length xs \<Longrightarrow> align f xs ys ! i = f (xs ! i) (ys ! i)"
proof (induction f xs ys arbitrary: i rule: align.induct)
  case (4 f x xs y ys)
  then show ?case by (cases i) auto
qed auto

lemma length_series_shift: "length (series_shift k xs) = length xs"
  by (simp add: series_shift_def)

lemma length_series_diff: "length (series_diff k xs) = length xs"
  by (simp add: series_diff_def length_align_eq length_series_shift)

lemma series_diff_nth:
  assumes "i < length ps" and "k \<le> i"
  shows "series_diff k (series ps) ! i = Fin (ps ! i - ps ! (i - k))"
proof -
  have sh: "series_shift k (series ps) ! i = Fin (ps ! (i - k))"
    using assms by (simp add: series_shift_def series_def nth_append min_def)
  have a: "series_diff k (series ps) ! i
             = np_sub (series ps ! i) (series_shift k (series ps) ! i)"
    unfolding series_diff_def
    by (rule align_nth) (simp_all add: length_series_shift assms series_def)
  show ?thesis
    using assms by (simp add: a sh np_sub_def) (simp add: series_def)
qed

lemma length_rolling: "length (rolling w agg xs) = length xs"
  by (simp add: rolling_def)

lemma last_rolling:
  assumes "1 \<le> w" and "w \<le> length xs"
  shows "last (rolling w agg xs) =
           (if list_all finite_value (drop (length xs - w) xs)
            then agg (drop (length xs - w) xs) else NaN)"
proof -
  have ne: "[0..<length xs] \<noteq> []" using assms by auto
  have pos: "0 < length xs" using assms by linarith
  have l: "last [0..<length xs] = length xs - 1" by (rule last_upt [OF pos])
  have w: "window_at w (length xs - 1) xs = drop (length xs - w) xs"
    using assms by (simp add: window_at_def)
  have w1: "w \<noteq> 0" "\<not> length xs - 1 + 1 < w" using assms by auto
  show ?thesis
    unfolding rolling_def last_map [OF ne] l
    using w1 w by (simp add: Let_def)
qed

lemma np_sum_Fin_aux: "foldl np_add (Fin a) (map Fin rs) = Fin (a + sum_list rs)"
  by (induction rs arbitrary: a) (auto simp: algebra_simps)

lemma np_sum_Fin: "np_sum (map Fin rs) = Fin (sum_list rs)"
  by (simp add: np_sum_def np_sum_Fin_aux)

lemma np_mean_Fin: "rs \<noteq> [] \<Longrightarrow> np_mean (map Fin rs) = Fin (sum_list rs / real (length rs))"
  by (simp add: np_mean_def np_sum_Fin)

lemma last_align:
  "length xs = length ys \<Longrightarrow> xs \<noteq> [] \<Longrightarrow> last (align f xs ys) = f (last xs) (last ys)"
proof -
  assume a: "length xs = length ys" "xs \<noteq> []"
  then have ne: "align f xs ys \<noteq> []" "ys \<noteq> []"
    using length_align_eq [OF a(1), of f] by auto
  have "last (align f xs ys) = align f xs ys ! (length xs - 1)"
    using ne(1) length_align_eq [OF a(1), of f] by (simp add: last_conv_nth)
  also have "\<dots> = f (xs ! (length xs - 1)) (ys ! (length xs - 1))"
    using a by (intro align_nth) (auto simp: length_greater_0_conv [symmetric] simp del: length_greater_0_conv)
  finally show ?thesis
    using a ne by (simp add: last_conv_nth)
qed


lemma rsi_window:
  assumes per: "1 \<le> period" and len: "period + 1 \<le> length prices"
    and mono: "\<forall>i. length prices - period \<le> i \<and> i < length prices \<longrightarrow> prices ! (i - 1) \<le> prices ! i"
  defines "delta \<equiv> series_diff 1 (series prices)"
  defines "gs \<equiv> map (\<lambda>i. prices ! i - prices ! (i - 1)) [length prices - period..<length prices]"
  shows "drop (length prices - period) (map (\<lambda>d. if np_less (Fin 0) d then d else Fin 0) delta)
           = map Fin gs"
    and "drop (length prices - period)
           (map (\<lambda>d. np_neg (if np_less d (Fin 0) then d else Fin 0)) delta)
           = map Fin (replicate period 0)"
proof -
  let ?n = "length prices"
  have ld: "length delta = ?n"
    by (simp add: delta_def length_series_diff series_def)
  have nth: "delta ! (?n - period + j) = Fin (prices ! (?n - period + j) - prices ! (?n - period + j - 1))"
    and ge: "0 \<le> prices ! (?n - period + j) - prices ! (?n - period + j - 1)"
    if "j < period" for j
  proof -
    have i: "?n - period + j < ?n" "1 \<le> ?n - period + j" using that len by auto
    show "delta ! (?n - period + j) = Fin (prices ! (?n - period + j) - prices ! (?n - period + j - 1))"
      unfolding delta_def by (rule series_diff_nth [OF i])
    show "0 \<le> prices ! (?n - period + j) - prices ! (?n - period + j - 1)"
      using mono i by simp
  qed
  show "drop (?n - period) (map (\<lambda>d. if np_less (Fin 0) d then d else Fin 0) delta) = map Fin gs"
  proof (rule nth_equalityI)
    show "length (drop (?n - period) (map (\<lambda>d. if np_less (Fin 0) d then d else Fin 0) delta))
            = length (map Fin gs)"
      using len by (simp add: ld gs_def)
  next
    fix j assume "j < length (drop (?n - period) (map (\<lambda>d. if np_less (Fin 0) d then d else Fin 0) delta))"
    then have j: "j < period" using len by (simp add: ld)
    have i: "?n - period + j < ?n" using j len by auto
    show "drop (?n - period) (map (\<lambda>d. if np_less (Fin 0) d then d else Fin 0) delta) ! j
            = map Fin gs ! j"
      using j i nth [OF j] ge [OF j] len by (simp add: ld gs_def)
  qed
  show "drop (?n - period) (map (\<lambda>d. np_neg (if np_less d (Fin 0) then d else Fin 0)) delta)
          = map Fin (replicate period 0)"
  proof (rule nth_equalityI)
    show "length (drop (?n - period) (map (\<lambda>d. np_neg (if np_less d (Fin 0) then d else Fin 0)) delta))
            = length (map Fin (replicate period 0))"
      using len by (simp add: ld)
  next
    fix j assume "j < length (drop (?n - period) (map (\<lambda>d. np_neg (if np_less d (Fin 0) then d else Fin 0)) delta))"
    then have j: "j < period" using len by (simp add: ld)
    have i: "?n - period + j < ?n" using j len by auto
    show "drop (?n - period) (map (\<lambda>d. np_neg (if np_less d (Fin 0) then d else Fin 0)) delta) ! j
            = map Fin (replicate period 0) ! j"
      using j i nth [OF j] ge [OF j] len by (simp add: ld)
  qed
qed

subsection \<open>Indicators on short series\<close>

text \<open>
  C5: on a series shorter than its minimum window (RSI: period + 1, MACD: slow,
  Bollinger: period, Stochastic: period, ATR: period + 1, OBV: 2, Momentum: period + 1)
  each indicator function returns \<^verbatim>\<open>None\<close>: neither a number nor an exception.
\<close>

theorem C5_short_series_unavailable:
  "(length prices < period + 1 \<longrightarrow> calculate_rsi prices period = Inr None)
   \<and> (length prices < slow \<longrightarrow> calculate_macd prices fast slow sig = Inr None)
   \<and> (length prices < period \<longrightarrow> calculate_bollinger_bands prices period std_dev = Inr None)
   \<and> (length cl < period \<longrightarrow> calculate_stochastic hi lo cl period = Inr None)
   \<and> (length cl < period + 1 \<longrightarrow> calculate_atr hi lo cl period = Inr None)
   \<and> (length cl < 2 \<longrightarrow> calculate_obv cl vol = Inr None)
   \<and> (length prices < period + 1 \<longrightarrow> calculate_momentum prices period = Inr None)"
  by (simp add: calculate_rsi_def calculate_macd_def calculate_bollinger_bands_def
        calculate_stochastic_def calculate_atr_def calculate_obv_def calculate_momentum_def)

theorem C5_short_series_witness:
  "calculate_rsi [10, 11, 12] 14 = Inr None
   \<and> calculate_macd [10, 11, 12] 12 26 9 = Inr None
   \<and> calculate_bollinger_bands [10, 11, 12] 14 2 = Inr None
   \<and> calculate_stochastic [11] [9] [10] 14 = Inr None
   \<and> calculate_atr [11] [9] [10] 14 = Inr None
   \<and> calculate_obv [10] [1000] = Inr None
   \<and> calculate_momentum [10, 11, 12] 14 = Inr None"
  using C5_short_series_unavailable
          [where prices = "[10, 11, 12]" and period = 14 and slow = 26 and fast = 12
             and sig = 9 and std_dev = 2 and hi = "[11]" and lo = "[9]" and cl = "[10]"
             and vol = "[1000]"]
  by simp

subsection \<open>RSI without losses\<close>

text \<open>
  C6, as the specification states it, fails on the code: on the rising series 1, 2, ..., 15
  with period 14 the average loss is zero and \<^verbatim>\<open>calculate_rsi\<close> returns 100. The division
  is a pandas division: a positive average gain over a zero average loss is infinite, not
  NaN, and \<open>100 - 100 / (1 + \<infinity>)\<close> is 100.
\<close>

theorem C6_rsi_rising_series_counterexample:
  "calculate_rsi [1, 2, 3, 4, 5, 6, 7, 8, 9, 10, 11, 12, 13, 14, 15] 14 = Inr (Some (Fin 100))"
  by code_simp

text \<open>
  C6, amended: for a period of at least 1 and a series of at least period + 1 points in
  which every daily delta over the trailing window is non-negative, \<^verbatim>\<open>calculate_rsi\<close>
  returns 100 when at least one of those deltas is positive, and \<^verbatim>\<open>None\<close> exactly when
  all of them are zero.
\<close>

theorem C6_rsi_without_losses:
  assumes per: "1 \<le> period" and len: "period + 1 \<le> length prices"
    and mono: "\<forall>i. length prices - period \<le> i \<and> i < length prices \<longrightarrow> prices ! (i - 1) \<le> prices ! i"
  shows "calculate_rsi prices period =
           (if \<exists>i. length prices - period \<le> i \<and> i < length prices \<and> prices ! (i - 1) < prices ! i
            then Inr (Some (Fin 100)) else Inr None)"
proof -
  let ?n = "length prices"
  define delta where "delta = series_diff 1 (series prices)"
  define gs where "gs = map (\<lambda>i. prices ! i - prices ! (i - 1)) [?n - period..<?n]"
  define G where "G = map (\<lambda>d. if np_less (Fin 0) d then d else Fin 0) delta"
  define L where "L = map (\<lambda>d. np_neg (if np_less d (Fin 0) then d else Fin 0)) delta"
  have ld: "length delta = ?n"
    by (simp add: delta_def length_series_diff series_def)
  have lG: "length G = ?n" and lL: "length L = ?n"
    by (simp_all add: G_def L_def ld)
  have wG: "drop (?n - period) G = map Fin gs" and wL: "drop (?n - period) L = map Fin (replicate period 0)"
    using rsi_window [OF per len mono] by (simp_all add: G_def L_def delta_def gs_def)
  have lgs: "length gs = period" using len by (simp add: gs_def)
  have gs_ne: "gs \<noteq> []" using lgs per by auto
  have pG: "period \<le> length G" and pL: "period \<le> length L" using len by (simp_all add: lG lL)
  have nanG: "list_all finite_value (map Fin gs)"
    and nanL: "list_all finite_value (map Fin (replicate period (0::real)))"
    by (simp_all add: list_all_iff)
  have gain: "last (rolling period np_mean G) = Fin (sum_list gs / real period)"
    using last_rolling [OF per pG, of np_mean] nanG np_mean_Fin [OF gs_ne]
    by (simp add: lG wG lgs)
  have rep_ne: "replicate period (0::real) \<noteq> []" using per by auto
  have "np_mean (map Fin (replicate period (0::real))) = Fin 0"
    using np_mean_Fin [OF rep_ne] by (simp add: sum_list_replicate)
  then have loss: "last (rolling period np_mean L) = Fin 0"
    using last_rolling [OF per pL, of np_mean] nanL
    by (simp add: lL wL del: map_replicate)
  have ne: "rolling period np_mean G \<noteq> []"
    using len lG length_rolling [of period np_mean G] by auto
  have leq: "length (rolling period np_mean G) = length (rolling period np_mean L)"
    by (simp add: length_rolling lG lL)
  have rs: "last (align np_div (rolling period np_mean G) (rolling period np_mean L))
              = signed_inf (sum_list gs / real period)"
    using last_align [OF leq ne, of np_div] by (simp add: gain loss)
  have ars_ne: "align np_div (rolling period np_mean G) (rolling period np_mean L) \<noteq> []"
    using ne length_align_eq [OF leq, of np_div] by auto
  have nonneg: "\<forall>x\<in>set gs. 0 \<le> x"
    using mono by (auto simp: gs_def)
  have pos_iff: "0 < sum_list gs / real period
                   \<longleftrightarrow> (\<exists>i. ?n - period \<le> i \<and> i < ?n \<and> prices ! (i - 1) < prices ! i)"
  proof -
    have "sum_list gs = 0 \<longleftrightarrow> (\<forall>x\<in>set gs. x = 0)"
      by (rule sum_list_nonneg_eq_0_iff) (use nonneg in auto)
    moreover have "0 \<le> sum_list gs"
      by (rule sum_list_nonneg) (use nonneg in auto)
    ultimately have "0 < sum_list gs \<longleftrightarrow> (\<exists>x\<in>set gs. x \<noteq> 0)"
      by auto
    also have "\<dots> \<longleftrightarrow> (\<exists>x\<in>set gs. 0 < x)"
      using nonneg by (metis less_eq_real_def less_irrefl)
    also have "\<dots> \<longleftrightarrow> (\<exists>i. ?n - period \<le> i \<and> i < ?n \<and> prices ! (i - 1) < prices ! i)"
      by (auto simp: gs_def)
    finally show ?thesis using per by (simp add: zero_less_divide_iff)
  qed
  have nn: "0 \<le> sum_list gs / real period"
    using sum_list_nonneg [of gs] nonneg by simp
  have guard: "\<not> length prices < period + 1" using len by simp
  let ?rs = "align np_div (rolling period np_mean G) (rolling period np_mean L)"
  have unf: "calculate_rsi prices period =
               then_do (iloc_last (map (\<lambda>r. np_sub (Fin 100) (np_div (Fin 100) (np_add (Fin 1) r))) ?rs))
                 (\<lambda>v. Inr (float_or_none v))"
    using guard by (simp add: calculate_rsi_def Let_def G_def L_def delta_def)
  show ?thesis
  proof (cases "\<exists>i. ?n - period \<le> i \<and> i < ?n \<and> prices ! (i - 1) < prices ! i")
    case True
    then have "last ?rs = PosInf"
      using rs pos_iff by (simp add: signed_inf_def)
    then show ?thesis
      unfolding unf using True ars_ne
      by (simp add: then_do_def iloc_last_def last_map float_or_none_def isna_def np_sub_def)
  next
    case False
    then have "\<not> 0 < sum_list gs / real period"
      using pos_iff by simp
    then have z: "sum_list gs / real period = 0"
      using nn by linarith
    have "last ?rs = NaN"
      unfolding rs z by (simp add: signed_inf_def)
    then show ?thesis
      unfolding unf using False ars_ne
      by (simp add: then_do_def iloc_last_def last_map float_or_none_def isna_def np_sub_def)
  qed
qed


theorem C6_rsi_without_losses_witness:
  "calculate_rsi [1, 2, 3] 2 = Inr (Some (Fin 100)) \<and> calculate_rsi [5, 5, 5] 2 = Inr None"
proof -
  have m1: "\<forall>i. length [1, 2, 3 :: real] - 2 \<le> i \<and> i < length [1, 2, 3 :: real]
              \<longrightarrow> [1, 2, 3 :: real] ! (i - 1) \<le> [1, 2, 3] ! i"
    by (auto simp: nth_Cons split: nat.splits)
  have m2: "\<forall>i. length [5, 5, 5 :: real] - 2 \<le> i \<and> i < length [5, 5, 5 :: real]
              \<longrightarrow> [5, 5, 5 :: real] ! (i - 1) \<le> [5, 5, 5] ! i"
    by (auto simp: nth_Cons split: nat.splits)
  have e1: "\<exists>i. length [1, 2, 3 :: real] - 2 \<le> i \<and> i < length [1, 2, 3 :: real]
              \<and> [1, 2, 3 :: real] ! (i - 1) < [1, 2, 3] ! i"
    by (rule exI [of _ 1]) simp
  have e2: "\<not> (\<exists>i. length [5, 5, 5 :: real] - 2 \<le> i \<and> i < length [5, 5, 5 :: real]
              \<and> [5, 5, 5 :: real] ! (i - 1) < [5, 5, 5] ! i)"
    by (auto simp: nth_Cons split: nat.splits)
  have "calculate_rsi [1, 2, 3] 2 = Inr (Some (Fin 100))"
    using C6_rsi_without_losses [of 2 "[1, 2, 3]", OF _ _ m1] e1 by simp
  moreover have "calculate_rsi [5, 5, 5] 2 = Inr None"
    using C6_rsi_without_losses [of 2 "[5, 5, 5]", OF _ _ m2] e2 by simp
  ultimately show ?thesis by simp
qed

subsection \<open>Moving averages\<close>

lemma sma_last:
  assumes "1 \<le> w" and "w \<le> length ps"
  shows "last (rolling w np_mean (series ps)) = Fin (sum_list (drop (length ps - w) ps) / real w)"
proof -
  have l: "w \<le> length (series ps)" using assms by (simp add: series_def)
  have d: "drop (length (series ps) - w) (series ps) = map Fin (drop (length ps - w) ps)"
    by (simp add: series_def drop_map)
  have ne: "drop (length ps - w) ps \<noteq> []" using assms by simp
  have len: "length (drop (length ps - w) ps) = w" using assms by simp
  have fin: "list_all finite_value (map Fin (drop (length ps - w) ps))"
    by (simp add: list_all_iff)
  have m: "np_mean (map Fin (drop (length ps - w) ps))
             = Fin (sum_list (drop (length ps - w) ps) / real w)"
    unfolding np_mean_Fin [OF ne] len by (rule refl)
  have "last (rolling w np_mean (series ps))
          = np_mean (map Fin (drop (length ps - w) ps))"
    using last_rolling [OF assms(1) l, of np_mean] fin by (simp add: d)
  then show ?thesis by (simp only: m)
qed

text \<open>
  C7, as the specification states it, fails on the code: on 60 points
  \<^verbatim>\<open>calculate_moving_averages\<close> returns the empty dictionary, so the 20-point and 50-point
  averages are absent although their own windows are met. The function returns before
  anything else when the series has fewer than 200 points.
\<close>

theorem C7_moving_averages_on_60_points_counterexample:
  "length (replicate 60 (100 :: real)) = 60
   \<and> calculate_moving_averages (replicate 60 100) = Map.empty
   \<and> calculate_moving_averages (replicate 60 100) ''sma_20'' = None
   \<and> calculate_moving_averages (replicate 60 100) ''sma_50'' = None"
  by (simp add: calculate_moving_averages_def)

text \<open>
  C7, amended: the moving averages are reported together. For every price series of
  fewer than 200 points none is reported (the result has no key); for every series of at
  least 200 points each of SMA 20, SMA 50 and SMA 200 is the mean of the last 20, 50 and
  200 closes and each of EMA 12 and EMA 26 is the last value of the exponential average
  of that span, so none of the five is null.
\<close>

theorem C7_moving_averages_all_or_none:
  "(length prices < 200 \<longrightarrow> calculate_moving_averages prices = Map.empty)
   \<and> (200 \<le> length prices \<longrightarrow>
        calculate_moving_averages prices ''sma_20''
          = Some (Some (Fin (sum_list (drop (length prices - 20) prices) / 20)))
        \<and> calculate_moving_averages prices ''sma_50''
          = Some (Some (Fin (sum_list (drop (length prices - 50) prices) / 50)))
        \<and> calculate_moving_averages prices ''sma_200''
          = Some (Some (Fin (sum_list (drop (length prices - 200) prices) / 200)))
        \<and> calculate_moving_averages prices ''ema_12''
          = Some (Some (Fin (last (ewm_alpha (2 / (12 + 1)) prices))))
        \<and> calculate_moving_averages prices ''ema_26''
          = Some (Some (Fin (last (ewm_alpha (2 / (26 + 1)) prices)))))"
proof (intro conjI impI)
  assume "length prices < 200"
  then show "calculate_moving_averages prices = Map.empty"
    by (simp add: calculate_moving_averages_def)
next
  assume a: "200 \<le> length prices"
  have s20: "last (rolling 20 np_mean (series prices))
               = Fin (sum_list (drop (length prices - 20) prices) / 20)"
    using sma_last [of 20 prices] a by simp
  have s50: "last (rolling 50 np_mean (series prices))
               = Fin (sum_list (drop (length prices - 50) prices) / 50)"
    using sma_last [of 50 prices] a by simp
  have s200: "last (rolling 200 np_mean (series prices))
               = Fin (sum_list (drop (length prices - 200) prices) / 200)"
    using sma_last [of 200 prices] a by simp
  show "calculate_moving_averages prices ''sma_20''
          = Some (Some (Fin (sum_list (drop (length prices - 20) prices) / 20)))"
    using a by (simp add: calculate_moving_averages_def s20)
  show "calculate_moving_averages prices ''sma_50''
          = Some (Some (Fin (sum_list (drop (length prices - 50) prices) / 50)))"
    using a by (simp add: calculate_moving_averages_def s50)
  show "calculate_moving_averages prices ''sma_200''
          = Some (Some (Fin (sum_list (drop (length prices - 200) prices) / 200)))"
    using a by (simp add: calculate_moving_averages_def s200)
  show "calculate_moving_averages prices ''ema_12''
          = Some (Some (Fin (last (ewm_alpha (2 / (12 + 1)) prices))))"
    using a by (simp add: calculate_moving_averages_def)
  show "calculate_moving_averages prices ''ema_26''
          = Some (Some (Fin (last (ewm_alpha (2 / (26 + 1)) prices))))"
    using a by (simp add: calculate_moving_averages_def)
qed

theorem C7_moving_averages_all_or_none_witness:
  "calculate_moving_averages (replicate 60 100) = Map.empty
   \<and> calculate_moving_averages (replicate 200 100) ''sma_20'' = Some (Some (Fin 100))
   \<and> calculate_moving_averages (replicate 200 100) ''sma_200'' = Some (Some (Fin 100))"
  using C7_moving_averages_all_or_none [of "replicate 60 100"]
        C7_moving_averages_all_or_none [of "replicate 200 100"]
  by (simp add: sum_list_replicate)

subsection \<open>Relative valuation\<close>

text \<open>
  C8, as the specification states it, fails on the code: a ratio that is not positive is
  skipped, so raising the trailing P/E from \<open>-1\<close> to \<open>1\<close> lowers the premium/discount
  score from 0 to a negative value.
\<close>

theorem C8_negative_to_positive_pe_counterexample:
  "premium_discount (calculate_relative_valuation (no_info\<lparr>trailingPE := Some 1\<rparr>))
     < premium_discount (calculate_relative_valuation (no_info\<lparr>trailingPE := Some (- 1)\<rparr>))"
  by (simp add: calculate_relative_valuation_def no_info_def vs_market_def add_premium_def)

text \<open>
  C8, amended: for every fundamentals record, increasing any one of trailing P/E,
  price-to-book or price-to-sales from a positive value to a larger one, the other fields
  held fixed, never decreases the premium/discount score.
\<close>

theorem C8_premium_monotone_on_positive_ratios:
  assumes "0 < a" and "a \<le> b"
  shows "premium_discount (calculate_relative_valuation (i\<lparr>trailingPE := Some a\<rparr>))
           \<le> premium_discount (calculate_relative_valuation (i\<lparr>trailingPE := Some b\<rparr>))
       \<and> premium_discount (calculate_relative_valuation (i\<lparr>priceToBook := Some a\<rparr>))
           \<le> premium_discount (calculate_relative_valuation (i\<lparr>priceToBook := Some b\<rparr>))
       \<and> premium_discount
           (calculate_relative_valuation (i\<lparr>priceToSalesTrailing12Months := Some a\<rparr>))
           \<le> premium_discount
               (calculate_relative_valuation (i\<lparr>priceToSalesTrailing12Months := Some b\<rparr>))"
proof -
  have b: "0 < b" using assms by simp
  have pe: "a / 22.5 * 100 \<le> b / 22.5 * 100" using assms by simp
  have pb: "a / 3.5 * 100 \<le> b / 3.5 * 100" using assms by simp
  have ps: "a / 2.5 * 100 \<le> b / 2.5 * 100" using assms by simp
  show ?thesis
    using assms b pe pb ps
    by (simp add: calculate_relative_valuation_def vs_market_def add_premium_def Let_def
          split: option.splits)
qed

theorem C8_premium_monotone_witness:
  "premium_discount (calculate_relative_valuation (no_info\<lparr>trailingPE := Some 10\<rparr>))
     \<le> premium_discount (calculate_relative_valuation (no_info\<lparr>trailingPE := Some 30\<rparr>))"
  using C8_premium_monotone_on_positive_ratios [of 10 30 no_info] by simp

subsection \<open>Sentiment\<close>

lemma overall_rule_labels:
  "retail_interest (overall_rule s) = retail_interest s"
  "analyst_sentiment (overall_rule s) = analyst_sentiment s"
  "momentum_sentiment (overall_rule s) = momentum_sentiment s"
  "institutional_interest (overall_rule s) = institutional_interest s"
  by (simp_all add: overall_rule_def Let_def)

lemma sentiment_score_overall_rule: "sentiment_score (overall_rule s) = sentiment_score s"
  by (simp add: sentiment_score_def overall_rule_labels)

text \<open>
  C9: whenever the sentiment analysis classifies retail interest HIGH, analyst sentiment
  BULLISH, momentum sentiment BULLISH and institutional interest LOW, the numeric score
  is 20 + 30 + 25 - 15 = 60 and the overall label is BULLISH.
\<close>

theorem C9_sentiment_example:
  assumes "s = analyze_sentiment ticker i hist_data"
    and "retail_interest s = ''HIGH''"
    and "analyst_sentiment s = ''BULLISH''"
    and "momentum_sentiment s = ''BULLISH''"
    and "institutional_interest s = ''LOW''"
  shows "sentiment_score s = 20 + 30 + 25 - 15 \<and> sentiment_score s = 60
         \<and> overall_sentiment s = ''BULLISH''"
proof -
  define s0 where
    "s0 = institutional_rule i (momentum_rule hist_data (analyst_rule i
            (volume_rule i sentiment_default)))"
  have s: "s = overall_rule s0"
    using assms(1) by (simp add: analyze_sentiment_def s0_def)
  have l: "retail_interest s0 = ''HIGH''" "analyst_sentiment s0 = ''BULLISH''"
    "momentum_sentiment s0 = ''BULLISH''" "institutional_interest s0 = ''LOW''"
    using assms(2-5) by (simp_all add: s overall_rule_labels)
  have sc0: "sentiment_score s0 = 60"
    by (simp add: sentiment_score_def l)
  have sc: "sentiment_score s = 60"
    by (simp add: s sentiment_score_overall_rule sc0)
  have "overall_sentiment s = ''BULLISH''"
    by (simp add: s overall_rule_def sc0)
  then show ?thesis using sc by simp
qed

theorem C9_sentiment_example_witness:
  "sentiment_score
     (analyze_sentiment ''X'' sentiment_example_info (Some sentiment_example_closes)) = 60
   \<and> overall_sentiment
       (analyze_sentiment ''X'' sentiment_example_info (Some sentiment_example_closes))
       = ''BULLISH''"
proof -
  let ?s = "analyze_sentiment ''X'' sentiment_example_info (Some sentiment_example_closes)"
  have l1: "retail_interest ?s = ''HIGH''" by code_simp
  have l2: "analyst_sentiment ?s = ''BULLISH''" by code_simp
  have l3: "momentum_sentiment ?s = ''BULLISH''" by code_simp
  have l4: "institutional_interest ?s = ''LOW''" by code_simp
  show ?thesis
    using C9_sentiment_example [OF refl l1 l2 l3 l4] by simp
qed

subsection \<open>Totals, ratios and rounding\<close>

lemma foldl_cadd_earned: "earned (foldl cadd a cs) = earned a + sum_list (map earned cs)"
  by (induction cs arbitrary: a) (simp_all add: cadd_def)

lemma foldl_cadd_possible: "possible (foldl cadd a cs) = possible a + sum_list (map possible cs)"
  by (induction cs arbitrary: a) (simp_all add: cadd_def)

lemma foldl_cadd_risks: "risks (foldl cadd a cs) = risks a @ concat (map risks cs)"
  by (induction cs arbitrary: a) (simp_all add: cadd_def)

lemma foldl_cadd_opps: "opps (foldl cadd a cs) = opps a @ concat (map opps cs)"
  by (induction cs arbitrary: a) (simp_all add: cadd_def)

lemma csum_fields:
  "earned (csum cs) = sum_list (map earned cs)"
  "possible (csum cs) = sum_list (map possible cs)"
  "risks (csum cs) = concat (map risks cs)"
  "opps (csum cs) = concat (map opps cs)"
  by (simp_all add: csum_def foldl_cadd_earned foldl_cadd_possible foldl_cadd_risks
        foldl_cadd_opps czero_def contrib_def)

lemma csum_bounds:
  assumes "\<forall>c\<in>set cs. 0 \<le> earned c \<and> earned c \<le> possible c"
  shows "0 \<le> earned (csum cs) \<and> earned (csum cs) \<le> possible (csum cs)"
proof -
  have "0 \<le> sum_list (map earned cs)"
    by (rule sum_list_nonneg) (use assms in auto)
  moreover have "sum_list (map earned cs) \<le> sum_list (map possible cs)"
    by (rule sum_list_mono) (use assms in auto)
  ultimately show ?thesis by (simp add: csum_fields)
qed

lemma score_of_bounds:
  assumes "0 \<le> earned c" and "earned c \<le> possible c"
  shows "0 \<le> score_of c \<and> score_of c \<le> 100"
proof (cases "possible c > 0")
  case True
  have "earned c * 100 \<le> 100 * possible c"
    using assms by simp
  then have "earned c / possible c * 100 \<le> 100"
    using True by (simp add: divide_le_eq)
  moreover have "0 \<le> earned c / possible c * 100"
    using True assms by simp
  ultimately show ?thesis using True by (simp add: score_of_def)
next
  case False
  then show ?thesis by (simp add: score_of_def)
qed

lemma clamp100_bounds: "0 \<le> clamp100 x \<and> clamp100 x \<le> 100"
  by (simp add: clamp100_def)

lemma py_round_1_bounds:
  assumes "0 \<le> x" and "x \<le> 100"
  shows "0 \<le> py_round x 1 \<and> py_round x 1 \<le> 100"
proof -
  define y where "y = x * 10"
  define f where "f = \<lfloor>y\<rfloor>"
  have y: "0 \<le> y" "y \<le> 1000" using assms by (simp_all add: y_def)
  have f0: "0 \<le> f" using y by (simp add: f_def)
  have f1: "f \<le> 1000" using y unfolding f_def by (simp add: floor_le_iff)
  have fy: "of_int f \<le> y" by (simp add: f_def)
  have top: "f = 1000 \<Longrightarrow> y - of_int f = 0"
    using fy y by simp
  have r: "py_round x 1 = (if y - of_int f < 1 / 2 then of_int f
          else if y - of_int f > 1 / 2 then of_int f + 1
          else if even f then of_int f else of_int f + 1) / 10"
    by (simp add: py_round_def Let_def y_def f_def)
  have lo: "0 \<le> (of_int f :: real)" using f0 by simp
  have hi: "(of_int f :: real) \<le> 1000" using f1 by simp
  have hi1: "y - of_int f \<ge> 1 / 2 \<Longrightarrow> (of_int f :: real) + 1 \<le> 1000"
  proof -
    assume a: "y - of_int f \<ge> 1 / 2"
    then have "f \<noteq> 1000" using top by auto
    then have "f \<le> 999" using f1 by simp
    then have "(of_int f :: real) \<le> 999" by (metis of_int_le_iff of_int_numeral)
    then show ?thesis by simp
  qed
  show ?thesis
    unfolding r using lo hi hi1 by (auto simp: not_less)
qed

lemma tech_rsi_bounds: "0 \<le> earned (tech_rsi sd) \<and> earned (tech_rsi sd) \<le> possible (tech_rsi sd)"
  by (simp add: tech_rsi_def contrib_def czero_def split: option.splits)

lemma tech_ma_bounds: "0 \<le> earned (tech_ma sd) \<and> earned (tech_ma sd) \<le> possible (tech_ma sd)"
  by (simp add: tech_ma_def csum_fields contrib_def czero_def truthy_def split: option.splits)

lemma tech_macd_bounds: "0 \<le> earned (tech_macd sd) \<and> earned (tech_macd sd) \<le> possible (tech_macd sd)"
  by (simp add: tech_macd_def csum_fields contrib_def czero_def split: option.splits)

lemma tech_bb_bounds: "0 \<le> earned (tech_bb sd) \<and> earned (tech_bb sd) \<le> possible (tech_bb sd)"
  by (simp add: tech_bb_def csum_fields contrib_def czero_def split: option.splits)

lemma tech_stoch_bounds: "0 \<le> earned (tech_stoch sd) \<and> earned (tech_stoch sd) \<le> possible (tech_stoch sd)"
  by (simp add: tech_stoch_def csum_fields contrib_def czero_def split: option.splits)

lemma tech_volume_bounds: "0 \<le> earned (tech_volume sd) \<and> earned (tech_volume sd) \<le> possible (tech_volume sd)"
  by (simp add: tech_volume_def csum_fields contrib_def czero_def split: option.splits)

lemma tech_momentum_bounds: "0 \<le> earned (tech_momentum sd) \<and> earned (tech_momentum sd) \<le> possible (tech_momentum sd)"
  by (simp add: tech_momentum_def csum_fields contrib_def czero_def split: option.splits)

lemma technical_bounds:
  "0 \<le> score_of (csum (technical_blocks sd)) \<and> score_of (csum (technical_blocks sd)) \<le> 100"
proof -
  have "\<forall>c\<in>set (technical_blocks sd). 0 \<le> earned c \<and> earned c \<le> possible c"
    using tech_rsi_bounds tech_ma_bounds tech_macd_bounds tech_bb_bounds tech_stoch_bounds
      tech_volume_bounds tech_momentum_bounds
    by (simp add: technical_blocks_def)
  from csum_bounds [OF this] show ?thesis
    using score_of_bounds by blast
qed

lemma growth_revenue_bounds: "0 \<le> earned (growth_revenue i) \<and> earned (growth_revenue i) \<le> possible (growth_revenue i)"
  by (simp add: growth_revenue_def contrib_def czero_def split: option.splits)

lemma growth_earnings_bounds: "0 \<le> earned (growth_earnings i) \<and> earned (growth_earnings i) \<le> possible (growth_earnings i)"
  by (simp add: growth_earnings_def contrib_def czero_def split: option.splits)

lemma growth_peg_bounds: "0 \<le> earned (growth_peg i) \<and> earned (growth_peg i) \<le> possible (growth_peg i)"
  by (simp add: growth_peg_def contrib_def czero_def positive_def split: option.splits)

lemma growth_forward_pe_bounds: "0 \<le> earned (growth_forward_pe i) \<and> earned (growth_forward_pe i) \<le> possible (growth_forward_pe i)"
  by (simp add: growth_forward_pe_def contrib_def czero_def positive_def split: option.splits)

lemma growth_bounds:
  "0 \<le> score_of (csum (growth_blocks i)) \<and> score_of (csum (growth_blocks i)) \<le> 100"
proof -
  have "\<forall>c\<in>set (growth_blocks i). 0 \<le> earned c \<and> earned c \<le> possible c"
    using growth_revenue_bounds growth_earnings_bounds growth_peg_bounds growth_forward_pe_bounds
    by (simp add: growth_blocks_def)
  from csum_bounds [OF this] show ?thesis
    using score_of_bounds by blast
qed

lemma run_scorer_blocks:
  assumes "run_scorer sd hist_data i ticker_obj = Inr st"
  shows "st_technical st = technical_blocks sd" and "st_growth st = growth_blocks i"
  using assms
  by (auto simp: run_scorer_def then_do_def Let_def split: sum.splits)

lemma overall_score_scores_of:
  "overall_score (scores_of st) =
     0.20 * score_of (csum (st_technical st))
     + 0.25 * clamp100 (score_of (csum (st_fundamental st)))
     + 0.15 * clamp100 (score_of (csum (st_momentum st)))
     + 0.20 * clamp100 (score_of (csum (st_value st)))
     + 0.10 * score_of (csum (st_growth st))"
  by (simp add: overall_score_def scores_of_def weights_def)

subsection \<open>When the scorer returns\<close>

text \<open>
  The scorer raises only inside the discounted cash flow, and only when the free cash
  flow is positive and beta makes the discount rate \<open>0.03 + 0.07 beta\<close> equal to the
  terminal growth 0.025 or to \<open>-1\<close>. Then the result is the degraded one.
\<close>

lemma dcf_loop_returns: "1 + d \<noteq> 0 \<Longrightarrow> \<exists>st. dcf_loop g d y n s = Inr st"
proof (induction n arbitrary: y s)
  case 0
  then show ?case by simp
next
  case (Suc n)
  obtain c p where s: "s = (c, p)" by (cases s)
  from Suc show ?case by (simp add: s Let_def)
qed

lemma scorer_dcf_returns:
  assumes "positive (freeCashflow i) = None \<or> beta i = None
           \<or> (\<exists>b. beta i = Some b \<and> b \<noteq> - 1 / 14 \<and> b \<noteq> - 103 / 7)"
  shows "\<exists>r. scorer_dcf i = Inr r"
proof (cases "positive (freeCashflow i)")
  case None
  then show ?thesis by (simp add: scorer_dcf_def Let_def)
next
  case (Some fcf)
  define d where "d = 0.03 + (case beta i of None \<Rightarrow> 1.0 | Some b \<Rightarrow> b) * (0.07 :: real)"
  define g where "g = min (max (((case revenueGrowth i of None \<Rightarrow> 0.05 | Some x \<Rightarrow> x)
                      + (case earningsQuarterlyGrowth i of None \<Rightarrow> 0.05 | Some x \<Rightarrow> x)) / 2)
                      0.02) (0.15 :: real)"
  have fpos: "0 < fcf"
    using Some by (auto simp: positive_def split: option.splits if_splits)
  have d1: "1 + d \<noteq> 0" and d2: "d - 0.025 \<noteq> 0"
    using assms Some by (auto simp: d_def split: option.splits)
  obtain st where st: "dcf_loop g d 1 5 (fcf, 0) = Inr st"
    using dcf_loop_returns [OF d1] by blast
  obtain c p where cp: "st = (c, p)" by (cases st)
  have "scorer_dcf i = calculate_dcf (Some fcf) (Some g) (Some 0.025) (Some d) 5 (sharesOutstanding i)"
    using Some by (simp add: scorer_dcf_def Let_def d_def g_def)
  then show ?thesis
    using fpos st cp d1 d2 by (simp add: calculate_dcf_def Let_def)
qed

lemma run_scorer_returns:
  assumes "positive (freeCashflow i) = None \<or> beta i = None
           \<or> (\<exists>b. beta i = Some b \<and> b \<noteq> - 1 / 14 \<and> b \<noteq> - 103 / 7)"
  shows "\<exists>st. run_scorer sd hist_data i ticker_obj = Inr st"
  using scorer_dcf_returns [OF assms]
  by (auto simp: run_scorer_def then_do_def Let_def)

lemma scorer_dcf_raises_example:
  "scorer_dcf (no_info\<lparr>freeCashflow := Some 100, beta := Some (- (1 / 14))\<rparr>)
     = Inl ZeroDivisionError"
  by (simp add: scorer_dcf_def calculate_dcf_def no_info_def positive_def Let_def
        eval_nat_numeral)

lemma generate_degraded_example:
  "generate_ai_analysis set_iter sd hist_data
     (no_info\<lparr>freeCashflow := Some 100, beta := Some (- (1 / 14))\<rparr>) ticker_obj
   = degraded_analysis"
  by (simp add: generate_ai_analysis_def run_scorer_def scorer_dcf_raises_example
        then_do_def Let_def)

lemma csum_drop_czero: "csum (cs1 @ czero # cs2) = csum (cs1 @ cs2)"
  by (rule contribution.equality) (simp_all add: csum_fields, simp_all add: czero_def contrib_def)

lemma scores_generate:
  "scores (generate_ai_analysis set_iter sd hist_data i ticker_obj) =
     (case run_scorer sd hist_data i ticker_obj of
        Inl e \<Rightarrow> []
      | Inr st \<Rightarrow> map (\<lambda>(k, v). (k, py_round v 1)) (scores_of st))"
  by (simp add: generate_ai_analysis_def degraded_analysis_def Let_def
        split: sum.splits prod.splits)

lemma run_scorer_example:
  "\<exists>st. run_scorer example_stock_data None example_info None = Inr st"
  by (simp add: run_scorer_def scorer_dcf_def example_info_def no_info_def positive_def
        then_do_def Let_def)

subsection \<open>Dynamic denominators\<close>

text \<open>
  The blocks that add their maximum only under the test for data: every block of the
  value and growth categories, RSI in the technical category, and PEG, debt-to-equity and
  current ratio in the fundamental category. Without data such a block contributes
  nothing, and the totals are those of the checklist without it.
\<close>

lemma dynamic_blocks_contribute_nothing:
  "(rsi sd = None \<longrightarrow> tech_rsi sd = czero)
   \<and> (positive (pegRatio i) = None
        \<longrightarrow> fund_peg i = czero \<and> value_peg i = czero \<and> growth_peg i = czero)
   \<and> (debtToEquity i = None \<longrightarrow> fund_debt i = czero)
   \<and> (currentRatio i = None \<longrightarrow> fund_liquidity i = czero)
   \<and> (positive (trailingPE i) = None \<longrightarrow> value_pe i = czero)
   \<and> (positive (priceToBook i) = None \<longrightarrow> value_pb i = czero)
   \<and> (targetMeanPrice i = None \<or> current_price \<le> 0 \<longrightarrow> value_target i current_price = czero)
   \<and> (revenueGrowth i = None \<longrightarrow> growth_revenue i = czero)
   \<and> (earningsQuarterlyGrowth i = None \<longrightarrow> growth_earnings i = czero)
   \<and> (positive (forwardPE i) = None \<or> positive (trailingPE i) = None
        \<longrightarrow> growth_forward_pe i = czero)
   \<and> (\<forall>cs1 cs2. csum (cs1 @ czero # cs2) = csum (cs1 @ cs2)
                 \<and> score_of (csum (cs1 @ czero # cs2)) = score_of (csum (cs1 @ cs2)))"
proof -
  have "value_target i current_price = czero"
    if "targetMeanPrice i = None \<or> current_price \<le> 0"
    using that by (auto simp: value_target_def split: option.splits)
  moreover have "growth_forward_pe i = czero"
    if "positive (forwardPE i) = None \<or> positive (trailingPE i) = None"
    using that by (auto simp: growth_forward_pe_def split: option.splits)
  ultimately show ?thesis
    by (simp add: tech_rsi_def fund_peg_def value_peg_def growth_peg_def fund_debt_def
          fund_liquidity_def value_pe_def value_pb_def growth_revenue_def
          growth_earnings_def csum_drop_czero)
qed

text \<open>
  The other blocks add their maximum before the test for data, so the maximum of the
  technical, fundamental and momentum categories is never zero and the neutral default
  of 50 cannot be reached for them.
\<close>

lemma technical_possible: "80 \<le> possible (csum (technical_blocks sd))"
  by (simp add: technical_blocks_def tech_rsi_def tech_ma_def tech_macd_def tech_bb_def
        tech_stoch_def tech_volume_def tech_momentum_def csum_fields contrib_def czero_def
        truthy_def split: option.splits)

lemma fundamental_possible: "65 \<le> possible (csum (fundamental_blocks i))"
  by (simp add: fundamental_blocks_def fund_pe_def fund_peg_def fund_health_def fund_debt_def
        fund_liquidity_def fund_growth_def fund_market_def csum_fields contrib_def czero_def
        positive_def split: option.splits)

lemma momentum_possible: "possible (csum (momentum_blocks sd)) = 50"
  by (simp add: momentum_blocks_def momentum_1y_def momentum_5y_def csum_fields contrib_def
        czero_def split: return_text.splits)

text \<open>
  C2 on inputs with missing technical data. With RSI the only indicator known, at 50, the
  returned technical sub-score is 15: the missing factors add 80 possible points. The
  RSI factor alone, which is the checklist with the missing factors removed, gives 75.
  With no data at all the returned technical sub-score is 0, not the neutral 50, and the
  rating is SELL.
\<close>

theorem C2_missing_data_lowers_returned_score:
  "map_of (scores (generate_ai_analysis id (no_stock_data\<lparr>rsi := Some 50\<rparr>) None no_info
                     None)) ''technical'' = Some 15
   \<and> score_of (tech_rsi (no_stock_data\<lparr>rsi := Some 50\<rparr>)) = 75
   \<and> possible (tech_macd (no_stock_data\<lparr>rsi := Some 50\<rparr>)) = 15
   \<and> map_of (scores (generate_ai_analysis id no_stock_data None no_info None)) ''technical''
       = Some 0
   \<and> overallRating (generate_ai_analysis id no_stock_data None no_info None) = ''SELL''"
proof -
  have a: "map_of (scores (generate_ai_analysis id (no_stock_data\<lparr>rsi := Some 50\<rparr>) None
                             no_info None)) ''technical'' = Some 15"
    by code_simp
  have b: "score_of (tech_rsi (no_stock_data\<lparr>rsi := Some 50\<rparr>)) = 75"
    by code_simp
  have c: "possible (tech_macd (no_stock_data\<lparr>rsi := Some 50\<rparr>)) = 15"
    by code_simp
  have d: "map_of (scores (generate_ai_analysis id no_stock_data None no_info None))
             ''technical'' = Some 0"
    by code_simp
  have e: "overallRating (generate_ai_analysis id no_stock_data None no_info None) = ''SELL''"
    by code_simp
  show ?thesis using a b c d e by simp
qed

subsection \<open>Overall score\<close>

text \<open>
  C3: whenever the scorer reaches the overall score, the score dictionary holds the five
  sub-scores and no \<^verbatim>\<open>macro\<close> or \<^verbatim>\<open>sentiment\<close> key, the overall score is
  0.20 technical + 0.25 fundamental + 0.15 momentum + 0.20 value + 0.10 growth, and it
  does not exceed 90.
\<close>

theorem C3_overall_weighted_score:
  assumes "run_scorer sd hist_data i ticker_obj = Inr st"
  shows "\<exists>t f m v g.
           map_of (scores_of st) ''technical'' = Some t
           \<and> map_of (scores_of st) ''fundamental'' = Some f
           \<and> map_of (scores_of st) ''momentum'' = Some m
           \<and> map_of (scores_of st) ''value'' = Some v
           \<and> map_of (scores_of st) ''growth'' = Some g
           \<and> map_of (scores_of st) ''macro'' = None
           \<and> map_of (scores_of st) ''sentiment'' = None
           \<and> overall_score (scores_of st)
               = 0.20 * t + 0.25 * f + 0.15 * m + 0.20 * v + 0.10 * g
           \<and> overall_score (scores_of st) \<le> 90"
proof -
  let ?t = "score_of (csum (st_technical st))"
  let ?f = "clamp100 (score_of (csum (st_fundamental st)))"
  let ?m = "clamp100 (score_of (csum (st_momentum st)))"
  let ?v = "clamp100 (score_of (csum (st_value st)))"
  let ?g = "score_of (csum (st_growth st))"
  have t: "?t \<le> 100"
    using technical_bounds [of sd] run_scorer_blocks(1) [OF assms] by simp
  have g: "?g \<le> 100"
    using growth_bounds [of i] run_scorer_blocks(2) [OF assms] by simp
  have f: "?f \<le> 100" and m: "?m \<le> 100" and v: "?v \<le> 100"
    using clamp100_bounds by blast+
  have eq: "overall_score (scores_of st)
              = 0.20 * ?t + 0.25 * ?f + 0.15 * ?m + 0.20 * ?v + 0.10 * ?g"
    by (rule overall_score_scores_of)
  have le: "overall_score (scores_of st) \<le> 90"
    using t f m v g by (simp add: eq)
  have keys: "map_of (scores_of st) ''technical'' = Some ?t"
    "map_of (scores_of st) ''fundamental'' = Some ?f"
    "map_of (scores_of st) ''momentum'' = Some ?m"
    "map_of (scores_of st) ''value'' = Some ?v"
    "map_of (scores_of st) ''growth'' = Some ?g"
    "map_of (scores_of st) ''macro'' = None"
    "map_of (scores_of st) ''sentiment'' = None"
    by (simp_all add: scores_of_def)
  show ?thesis
    using keys eq le by blast
qed

theorem C3_overall_weighted_score_witness:
  "\<exists>st. run_scorer example_stock_data None example_info None = Inr st
        \<and> map_of (scores_of st) ''macro'' = None
        \<and> overall_score (scores_of st) \<le> 90"
proof -
  obtain st where st: "run_scorer example_stock_data None example_info None = Inr st"
    using run_scorer_example by blast
  from C3_overall_weighted_score [OF st] st show ?thesis by blast
qed

subsection \<open>Range of the sub-scores\<close>

text \<open>
  C4: every sub-score in the returned score set lies in [0, 100]; and whenever the scorer
  reaches the overall score, the score set holds exactly the five sub-scores technical,
  fundamental, momentum, value and growth.
\<close>

theorem C4_sub_scores_in_range:
  "(\<forall>(k, v) \<in> set (scores (generate_ai_analysis set_iter sd hist_data i ticker_obj)).
       0 \<le> v \<and> v \<le> 100)
   \<and> (\<forall>st. run_scorer sd hist_data i ticker_obj = Inr st
         \<longrightarrow> map fst (scores (generate_ai_analysis set_iter sd hist_data i ticker_obj))
               = [''technical'', ''fundamental'', ''momentum'', ''value'', ''growth''])"
proof (cases "run_scorer sd hist_data i ticker_obj")
  case (Inl e)
  then show ?thesis by (simp add: scores_generate)
next
  case (Inr st)
  have t: "0 \<le> score_of (csum (st_technical st)) \<and> score_of (csum (st_technical st)) \<le> 100"
    using technical_bounds [of sd] run_scorer_blocks(1) [OF Inr] by simp
  have g: "0 \<le> score_of (csum (st_growth st)) \<and> score_of (csum (st_growth st)) \<le> 100"
    using growth_bounds [of i] run_scorer_blocks(2) [OF Inr] by simp
  have r: "0 \<le> py_round x 1 \<and> py_round x 1 \<le> 100" if "0 \<le> x \<and> x \<le> 100" for x
    using that py_round_1_bounds by blast
  show ?thesis
    using r [OF t] r [OF g] r [OF clamp100_bounds]
    by (simp add: scores_generate Inr scores_of_def)
qed

theorem C4_sub_scores_in_range_witness:
  "scores (generate_ai_analysis id example_stock_data None example_info None)
     = [(''technical'', 10), (''fundamental'', 47.5), (''momentum'', 0), (''value'', 90.7),
        (''growth'', 80)]
   \<and> (0 :: real) \<le> 90.7 \<and> (90.7 :: real) \<le> 100
   \<and> map fst (scores (generate_ai_analysis id example_stock_data None example_info None))
       = [''technical'', ''fundamental'', ''momentum'', ''value'', ''growth'']"
proof -
  let ?a = "generate_ai_analysis id example_stock_data None example_info None"
  have e: "scores ?a
          = [(''technical'', 10), (''fundamental'', 47.5), (''momentum'', 0),
             (''value'', 90.7), (''growth'', 80)]"
    by code_simp
  then have v: "(''value'', 90.7) \<in> set (scores ?a)"
    by simp
  obtain st where st: "run_scorer example_stock_data None example_info None = Inr st"
    using run_scorer_example by blast
  have all: "\<forall>(k, v) \<in> set (scores ?a). 0 \<le> v \<and> v \<le> 100"
    and keys: "map fst (scores ?a)
                 = [''technical'', ''fundamental'', ''momentum'', ''value'', ''growth'']"
    using C4_sub_scores_in_range [of id example_stock_data None example_info None] st
    by blast+
  from all v have "(0 :: real) \<le> 90.7 \<and> (90.7 :: real) \<le> 100"
    by blast
  then show ?thesis using e keys by blast
qed

subsection \<open>Order of the risk and opportunity lists\<close>

text \<open>
  C10 on the example input: the scorer collects three distinct risks, and the returned
  \<^verbatim>\<open>riskFactors\<close> follow the iteration order of the set built from them. Under two
  iteration orders (insertion order and its reverse, both permutations of the same
  elements) the two results differ, and so do the opportunity lists.
\<close>

theorem C10_risk_order_follows_set_iteration:
  "riskFactors (generate_ai_analysis id example_stock_data None example_info None)
     = [Text ''High RSI suggests potential pullback'',
        Text ''MACD bearish crossover indicates weakening momentum'',
        Text ''Negative momentum indicates downward price pressure'']
   \<and> riskFactors (generate_ai_analysis rev example_stock_data None example_info None)
     = [Text ''Negative momentum indicates downward price pressure'',
        Text ''MACD bearish crossover indicates weakening momentum'',
        Text ''High RSI suggests potential pullback'']
   \<and> generate_ai_analysis id example_stock_data None example_info None
       \<noteq> generate_ai_analysis rev example_stock_data None example_info None"
proof -
  have a: "riskFactors (generate_ai_analysis id example_stock_data None example_info None)
     = [Text ''High RSI suggests potential pullback'',
        Text ''MACD bearish crossover indicates weakening momentum'',
        Text ''Negative momentum indicates downward price pressure'']"
    by code_simp
  have b: "riskFactors (generate_ai_analysis rev example_stock_data None example_info None)
     = [Text ''Negative momentum indicates downward price pressure'',
        Text ''MACD bearish crossover indicates weakening momentum'',
        Text ''High RSI suggests potential pullback'']"
    by code_simp
  have "riskFactors (generate_ai_analysis id example_stock_data None example_info None)
          \<noteq> riskFactors (generate_ai_analysis rev example_stock_data None example_info None)"
    unfolding a b by simp
  then have "generate_ai_analysis id example_stock_data None example_info None
               \<noteq> generate_ai_analysis rev example_stock_data None example_info None"
    by metis
  then show ?thesis using a b by simp
qed

end
